theory Spec2Isabelle
  imports Complex_Main
begin

section \<open>Values, exceptions and strings\<close>

text \<open>
  The tracker of \<^verbatim>\<open>main.py\<close> (and its earlier variant \<^verbatim>\<open>homework.py\<close>) works on the
  numbers of a sensor package. A package element is a Python \<^verbatim>\<open>int\<close> or \<^verbatim>\<open>float\<close>, or
  \<^verbatim>\<open>None\<close>, which \<^verbatim>\<open>checking_correct_data\<close> looks for. The program is given twice.
  In the first part both kinds of number are read as the real number they denote and
  arithmetic is exact: that part says which formula a method evaluates, what it stores
  and which package is accepted. The second part, further down, gives the numbers their
  machine representation, with the rounding, overflow and special values of binary
  floating point: it says which exceptions the arithmetic raises and what is printed for
  a number.
\<close>

datatype pyval = PyNone | Num real

text \<open>The exceptions the two files can raise. \<^verbatim>\<open>Exception\<close> carries its message.\<close>

datatype error =
    Exception string
  | KeyError
  | TypeError
  | ZeroDivisionError
  | OverflowError
  | NotImplementedError

text \<open>
  A Python \<^verbatim>\<open>str\<close> is held as its UTF-8 encoding: the Cyrillic letters of the messages
  are two bytes each. Only equality and concatenation of strings are used.
\<close>

definition SWM :: string where "SWM = ''SWM''"
definition RUN :: string where "RUN = ''RUN''"
definition WLK :: string where "WLK = ''WLK''"

definition LEN_FOR_SWM :: nat where "LEN_FOR_SWM = 5"
definition LEN_FOR_RUN :: nat where "LEN_FOR_RUN = 3"
definition LEN_FOR_WLK :: nat where "LEN_FOR_WLK = 4"

text \<open>\<^verbatim>\<open>NOT_FOUND\<close>: "unknown training." in Russian.\<close>

definition NOT_FOUND :: string where
  "NOT_FOUND =
     [CHR 0xD0, CHR 0x9D, CHR 0xD0, CHR 0xB5, CHR 0xD0, CHR 0xB8, CHR 0xD0, CHR 0xB7,
      CHR 0xD0, CHR 0xB2, CHR 0xD0, CHR 0xB5, CHR 0xD1, CHR 0x81, CHR 0xD1, CHR 0x82,
      CHR 0xD0, CHR 0xBD, CHR 0xD0, CHR 0xB0, CHR 0xD1, CHR 0x8F] @ '' '' @
     [CHR 0xD1, CHR 0x82, CHR 0xD1, CHR 0x80, CHR 0xD0, CHR 0xB5, CHR 0xD0, CHR 0xBD,
      CHR 0xD0, CHR 0xB8, CHR 0xD1, CHR 0x80, CHR 0xD0, CHR 0xBE, CHR 0xD0, CHR 0xB2,
      CHR 0xD0, CHR 0xBA, CHR 0xD0, CHR 0xB0] @ ''.''"

text \<open>\<^verbatim>\<open>BAD_DATA\<close>: "incorrect data package." in Russian.\<close>

definition BAD_DATA :: string where
  "BAD_DATA =
     [CHR 0xD0, CHR 0x9D, CHR 0xD0, CHR 0xB5, CHR 0xD0, CHR 0xBA, CHR 0xD0, CHR 0xBE,
      CHR 0xD1, CHR 0x80, CHR 0xD1, CHR 0x80, CHR 0xD0, CHR 0xB5, CHR 0xD0, CHR 0xBA,
      CHR 0xD1, CHR 0x82, CHR 0xD0, CHR 0xBD, CHR 0xD1, CHR 0x8B, CHR 0xD0, CHR 0xB9] @ '' '' @
     [CHR 0xD0, CHR 0xBF, CHR 0xD0, CHR 0xB0, CHR 0xD0, CHR 0xBA, CHR 0xD0, CHR 0xB5,
      CHR 0xD1, CHR 0x82] @ '' '' @
     [CHR 0xD0, CHR 0xB4, CHR 0xD0, CHR 0xB0, CHR 0xD0, CHR 0xBD, CHR 0xD0, CHR 0xBD,
      CHR 0xD1, CHR 0x8B, CHR 0xD1, CHR 0x85] @ ''.''"

section \<open>Arithmetic on values\<close>

text \<open>
  An operand is an already evaluated subexpression: a value, or the exception its
  evaluation raised. The left operand is evaluated first, so its exception wins. An
  operator applied to \<^verbatim>\<open>None\<close> raises \<^verbatim>\<open>TypeError\<close>; true division by zero raises
  \<^verbatim>\<open>ZeroDivisionError\<close>.
\<close>

definition num :: "real \<Rightarrow> error + pyval" where
  "num x = Inr (Num x)"

fun py_add :: "error + pyval \<Rightarrow> error + pyval \<Rightarrow> error + pyval" where
  "py_add (Inl e) _ = Inl e"
| "py_add (Inr _) (Inl e) = Inl e"
| "py_add (Inr (Num a)) (Inr (Num b)) = Inr (Num (a + b))"
| "py_add (Inr _) (Inr _) = Inl TypeError"

fun py_mul :: "error + pyval \<Rightarrow> error + pyval \<Rightarrow> error + pyval" where
  "py_mul (Inl e) _ = Inl e"
| "py_mul (Inr _) (Inl e) = Inl e"
| "py_mul (Inr (Num a)) (Inr (Num b)) = Inr (Num (a * b))"
| "py_mul (Inr _) (Inr _) = Inl TypeError"

fun py_truediv :: "error + pyval \<Rightarrow> error + pyval \<Rightarrow> error + pyval" where
  "py_truediv (Inl e) _ = Inl e"
| "py_truediv (Inr _) (Inl e) = Inl e"
| "py_truediv (Inr (Num a)) (Inr (Num b)) =
     (if b = 0 then Inl ZeroDivisionError else Inr (Num (a / b)))"
| "py_truediv (Inr _) (Inr _) = Inl TypeError"

text \<open>\<^verbatim>\<open>x ** 2\<close>, the only power the source takes.\<close>

fun py_square :: "error + pyval \<Rightarrow> error + pyval" where
  "py_square (Inl e) = Inl e"
| "py_square (Inr (Num a)) = Inr (Num (a ^ 2))"
| "py_square (Inr PyNone) = Inl TypeError"

section \<open>The message of a training\<close>

text \<open>The dataclass \<^verbatim>\<open>InfoMessage\<close>; its constructor takes the fields in order.\<close>

datatype InfoMessage =
  InfoMessage (training_type: string) (duration: pyval) (distance: pyval)
    (speed: pyval) (calories: pyval)

section \<open>Training objects\<close>

text \<open>
  The attributes \<^verbatim>\<open>Training.__init__\<close> sets. \<^verbatim>\<open>spent_calories\<close> and
  \<^verbatim>\<open>mean_speed_km_h\<close> start at \<^verbatim>\<open>0.0\<close> and are assigned by the methods.
\<close>

record attrs =
  action :: pyval
  duration :: pyval
  weight :: pyval
  spent_calories :: pyval
  mean_speed_km_h :: pyval

text \<open>An object is its class together with its attributes.\<close>

datatype training =
    Training (common: attrs)
  | Running (common: attrs)
  | SportsWalking (common: attrs) (height: pyval)
  | Swimming (common: attrs) (length_pool: pyval) (count_pool: pyval)

fun class_name :: "training \<Rightarrow> string" where
  "class_name (Training _) = ''Training''"
| "class_name (Running _) = ''Running''"
| "class_name (SportsWalking _ _) = ''SportsWalking''"
| "class_name (Swimming _ _ _) = ''Swimming''"

text \<open>Assignment to an attribute of the base class.\<close>

fun update_common :: "(attrs \<Rightarrow> attrs) \<Rightarrow> training \<Rightarrow> training" where
  "update_common f (Training c) = Training (f c)"
| "update_common f (Running c) = Running (f c)"
| "update_common f (SportsWalking c h) = SportsWalking (f c) h"
| "update_common f (Swimming c l n) = Swimming (f c) l n"

subsection \<open>Class constants\<close>

text \<open>\<^verbatim>\<open>LEN_STEP\<close> is looked up through the class: \<^verbatim>\<open>Swimming\<close> overrides it.\<close>

fun LEN_STEP :: "training \<Rightarrow> real" where
  "LEN_STEP (Swimming _ _ _) = 1.38"
| "LEN_STEP _ = 0.65"

definition M_IN_KM :: real where "M_IN_KM = 1000"
definition MIN_IN_HOUR :: real where "MIN_IN_HOUR = 60"
definition CALORIES_MEAN_SPEED_MULTIPLIER :: real where "CALORIES_MEAN_SPEED_MULTIPLIER = 18"
definition CALORIES_MEAN_SPEED_SHIFT :: real where "CALORIES_MEAN_SPEED_SHIFT = 1.79"
definition CALORIES_WEIGHT_FACTOR_1 :: real where "CALORIES_WEIGHT_FACTOR_1 = 0.035"
definition CALORIES_WEIGHT_FACTOR_2 :: real where "CALORIES_WEIGHT_FACTOR_2 = 0.029"
definition M_TO_SEC_CONVERTER :: real where "M_TO_SEC_CONVERTER = 0.278"
definition CM_IN_METER :: real where "CM_IN_METER = 100"
definition SPEED_SWIM_SHIFT :: real where "SPEED_SWIM_SHIFT = 1.1"
definition CALORIES_SPEED_SWIM_MULTIPLIER :: real where "CALORIES_SPEED_SWIM_MULTIPLIER = 2"

subsection \<open>Constructors\<close>

definition Training_init :: "pyval \<Rightarrow> pyval \<Rightarrow> pyval \<Rightarrow> attrs" where
  "Training_init a d w =
     \<lparr>action = a, duration = d, weight = w, spent_calories = Num 0, mean_speed_km_h = Num 0\<rparr>"

text \<open>The height arrives in centimetres and is stored in metres.\<close>

definition SportsWalking_init :: "pyval \<Rightarrow> pyval \<Rightarrow> pyval \<Rightarrow> pyval \<Rightarrow> error + training" where
  "SportsWalking_init a d w h =
     (case py_truediv (Inr h) (num CM_IN_METER) of
        Inl e \<Rightarrow> Inl e
      | Inr m \<Rightarrow> Inr (SportsWalking (Training_init a d w) m))"

definition Swimming_init :: "pyval \<Rightarrow> pyval \<Rightarrow> pyval \<Rightarrow> pyval \<Rightarrow> pyval \<Rightarrow> training" where
  "Swimming_init a d w l n = Swimming (Training_init a d w) l n"

text \<open>
  Calling a class with an unpacked list, \<^verbatim>\<open>cls(*data_list)\<close>: the arguments are bound
  by position, and a list that is too short or too long raises \<^verbatim>\<open>TypeError\<close> before
  \<^verbatim>\<open>__init__\<close> runs. \<^verbatim>\<open>Running\<close> inherits the constructor of \<^verbatim>\<open>Training\<close>.
\<close>

fun call_Running :: "pyval list \<Rightarrow> error + training" where
  "call_Running [a, d, w] = Inr (Running (Training_init a d w))"
| "call_Running _ = Inl TypeError"

fun call_SportsWalking :: "pyval list \<Rightarrow> error + training" where
  "call_SportsWalking [a, d, w, h] = SportsWalking_init a d w h"
| "call_SportsWalking _ = Inl TypeError"

fun call_Swimming :: "pyval list \<Rightarrow> error + training" where
  "call_Swimming [a, d, w, l, n] = Inr (Swimming_init a d w l n)"
| "call_Swimming _ = Inl TypeError"

section \<open>The formulas\<close>

text \<open>
  A method takes the object and returns what it returned or raised, together with the
  object as the call left it.
\<close>

type_synonym 'a outcome = "(error + 'a) \<times> training"

definition get_distance :: "training \<Rightarrow> pyval outcome" where
  "get_distance self =
     (py_truediv (py_mul (Inr (action (common self))) (num (LEN_STEP self))) (num M_IN_KM),
      self)"

text \<open>\<^verbatim>\<open>Training.get_mean_speed\<close> stores the speed in the object, then returns it.\<close>

definition Training_get_mean_speed :: "training \<Rightarrow> pyval outcome" where
  "Training_get_mean_speed self =
     (case get_distance self of (distance_km, s) \<Rightarrow>
        (case py_truediv distance_km (Inr (duration (common s))) of
           Inl e \<Rightarrow> (Inl e, s)
         | Inr v \<Rightarrow>
             (let s' = update_common (\<lambda>c. c\<lparr>mean_speed_km_h := v\<rparr>) s
              in (Inr (mean_speed_km_h (common s')), s'))))"

text \<open>The methods that read attributes of their own class take the object apart.\<close>

definition Swimming_get_mean_speed :: "attrs \<Rightarrow> pyval \<Rightarrow> pyval \<Rightarrow> pyval outcome" where
  "Swimming_get_mean_speed c l n =
     (case py_truediv (py_truediv (py_mul (Inr l) (Inr n)) (num M_IN_KM)) (Inr (duration c)) of
        Inl e \<Rightarrow> (Inl e, Swimming c l n)
      | Inr v \<Rightarrow>
          (let s' = Swimming (c\<lparr>mean_speed_km_h := v\<rparr>) l n
           in (Inr (mean_speed_km_h (common s')), s')))"

text \<open>Method lookup: \<^verbatim>\<open>Swimming\<close> overrides \<^verbatim>\<open>get_mean_speed\<close>, the others inherit it.\<close>

fun get_mean_speed :: "training \<Rightarrow> pyval outcome" where
  "get_mean_speed (Swimming c l n) = Swimming_get_mean_speed c l n"
| "get_mean_speed self = Training_get_mean_speed self"

text \<open>Assignment to \<^verbatim>\<open>self.spent_calories\<close> of an evaluated expression, and its return.\<close>

definition store_spent_calories :: "error + pyval \<Rightarrow> training \<Rightarrow> pyval outcome" where
  "store_spent_calories r s =
     (case r of
        Inl e \<Rightarrow> (Inl e, s)
      | Inr v \<Rightarrow>
          (let s' = update_common (\<lambda>c. c\<lparr>spent_calories := v\<rparr>) s
           in (Inr (spent_calories (common s')), s')))"

definition Training_get_spent_calories :: "training \<Rightarrow> pyval outcome" where
  "Training_get_spent_calories self = (Inl NotImplementedError, self)"

definition Running_get_spent_calories :: "training \<Rightarrow> pyval outcome" where
  "Running_get_spent_calories self =
     (case get_mean_speed self of (mean_speed, s) \<Rightarrow>
        store_spent_calories
          (py_mul
             (py_truediv
                (py_mul
                   (py_add (py_mul (num CALORIES_MEAN_SPEED_MULTIPLIER) mean_speed)
                      (num CALORIES_MEAN_SPEED_SHIFT))
                   (Inr (weight (common s))))
                (num M_IN_KM))
             (py_mul (Inr (duration (common s))) (num MIN_IN_HOUR)))
          s)"

definition SportsWalking_get_spent_calories :: "attrs \<Rightarrow> pyval \<Rightarrow> pyval outcome" where
  "SportsWalking_get_spent_calories c h =
     (case get_mean_speed (SportsWalking c h) of (mean_speed, s) \<Rightarrow>
        (case py_mul mean_speed (num M_TO_SEC_CONVERTER) of
           Inl e \<Rightarrow> (Inl e, s)
         | Inr meters_in_sec \<Rightarrow>
             store_spent_calories
               (py_mul
                  (py_mul
                     (py_add
                        (py_mul (num CALORIES_WEIGHT_FACTOR_1) (Inr (weight (common s))))
                        (py_mul
                           (py_mul
                              (py_truediv (py_square (Inr meters_in_sec)) (Inr (height s)))
                              (num CALORIES_WEIGHT_FACTOR_2))
                           (Inr (weight (common s)))))
                     (Inr (duration (common s))))
                  (num MIN_IN_HOUR))
               s))"

definition Swimming_get_spent_calories :: "training \<Rightarrow> pyval outcome" where
  "Swimming_get_spent_calories self =
     (case get_mean_speed self of (mean_speed, s) \<Rightarrow>
        store_spent_calories
          (py_mul
             (py_mul
                (py_mul (py_add mean_speed (num SPEED_SWIM_SHIFT))
                   (num CALORIES_SPEED_SWIM_MULTIPLIER))
                (Inr (weight (common s))))
             (Inr (duration (common s))))
          s)"

fun get_spent_calories :: "training \<Rightarrow> pyval outcome" where
  "get_spent_calories (Training c) = Training_get_spent_calories (Training c)"
| "get_spent_calories (Running c) = Running_get_spent_calories (Running c)"
| "get_spent_calories (SportsWalking c h) = SportsWalking_get_spent_calories c h"
| "get_spent_calories (Swimming c l n) = Swimming_get_spent_calories (Swimming c l n)"

text \<open>
  \<^verbatim>\<open>show_training_info\<close> evaluates the arguments of \<^verbatim>\<open>InfoMessage\<close> from left to right:
  the class name, the duration, then the three methods, each on the object as the one
  before left it.
\<close>

definition show_training_info :: "training \<Rightarrow> InfoMessage outcome" where
  "show_training_info self =
     (let name = class_name self; dur = duration (common self) in
      case get_distance self of
        (Inl e, s1) \<Rightarrow> (Inl e, s1)
      | (Inr distance_km, s1) \<Rightarrow>
          (case get_mean_speed s1 of
             (Inl e, s2) \<Rightarrow> (Inl e, s2)
           | (Inr sp, s2) \<Rightarrow>
               (case get_spent_calories s2 of
                  (Inl e, s3) \<Rightarrow> (Inl e, s3)
                | (Inr cal, s3) \<Rightarrow> (Inr (InfoMessage name dur distance_km sp cal), s3))))"

section \<open>Rendering the message\<close>

text \<open>
  The format specifications \<^verbatim>\<open>.3f\<close> and \<^verbatim>\<open>,.3f\<close>: the number is rounded to three
  decimals, a tie going to the even neighbour, and written as sign, integer part, point
  and three digits; with the comma option the digits of the integer part are grouped in
  threes from the right.
\<close>

definition round_half_even :: "real \<Rightarrow> int" where
  "round_half_even y =
     (let f = \<lfloor>y\<rfloor>; r = y - of_int f
      in if r < 1 / 2 then f else if 1 / 2 < r then f + 1 else if even f then f else f + 1)"

definition digit_char :: "nat \<Rightarrow> char" where
  "digit_char n = ''0123456789'' ! (n mod 10)"

fun digits :: "nat \<Rightarrow> string" where
  "digits n = (if n < 10 then [digit_char n] else digits (n div 10) @ [digit_char (n mod 10)])"

declare digits.simps [simp del]

text \<open>The commas are put in on the reversed digits, after every third one that has a successor.\<close>

fun commas_rev :: "string \<Rightarrow> string" where
  "commas_rev (a # b # c # d # ds) = a # b # c # CHR '','' # commas_rev (d # ds)"
| "commas_rev ds = ds"

definition group_thousands :: "string \<Rightarrow> string" where
  "group_thousands ds = rev (commas_rev (rev ds))"

definition format_f3 :: "bool \<Rightarrow> real \<Rightarrow> string" where
  "format_f3 grouping x =
     (let n = nat (round_half_even (\<bar>x\<bar> * 1000));
          int_part = digits (n div 1000);
          frac = n mod 1000
      in (if x < 0 then ''-'' else [])
         @ (if grouping then group_thousands int_part else int_part)
         @ ''.''
         @ [digit_char (frac div 100), digit_char (frac div 10 mod 10), digit_char (frac mod 10)])"

text \<open>Formatting \<^verbatim>\<open>None\<close> with a float specification raises \<^verbatim>\<open>TypeError\<close>.\<close>

fun py_format :: "bool \<Rightarrow> pyval \<Rightarrow> error + string" where
  "py_format grouping (Num x) = Inr (format_f3 grouping x)"
| "py_format grouping PyNone = Inl TypeError"

text \<open>The pieces of an f-string are evaluated and joined from left to right.\<close>

fun py_concat :: "error + string \<Rightarrow> error + string \<Rightarrow> error + string" where
  "py_concat (Inl e) _ = Inl e"
| "py_concat (Inr _) (Inl e) = Inl e"
| "py_concat (Inr a) (Inr b) = Inr (a @ b)"

text \<open>
  The fixed text of the message, in Russian: "Training type: ", "; Duration: ",
  " h.; Distance: ", " km; Mean speed: ", " km/h; Calories spent: " and the final point.
\<close>

definition TXT_TYPE :: string where
  "TXT_TYPE =
     [CHR 0xD0, CHR 0xA2, CHR 0xD0, CHR 0xB8, CHR 0xD0, CHR 0xBF] @ '' '' @
     [CHR 0xD1, CHR 0x82, CHR 0xD1, CHR 0x80, CHR 0xD0, CHR 0xB5, CHR 0xD0, CHR 0xBD,
      CHR 0xD0, CHR 0xB8, CHR 0xD1, CHR 0x80, CHR 0xD0, CHR 0xBE, CHR 0xD0, CHR 0xB2,
      CHR 0xD0, CHR 0xBA, CHR 0xD0, CHR 0xB8] @ '': ''"

definition TXT_DURATION :: string where
  "TXT_DURATION =
     ''; '' @
     [CHR 0xD0, CHR 0x94, CHR 0xD0, CHR 0xBB, CHR 0xD0, CHR 0xB8, CHR 0xD1, CHR 0x82,
      CHR 0xD0, CHR 0xB5, CHR 0xD0, CHR 0xBB, CHR 0xD1, CHR 0x8C, CHR 0xD0, CHR 0xBD,
      CHR 0xD0, CHR 0xBE, CHR 0xD1, CHR 0x81, CHR 0xD1, CHR 0x82, CHR 0xD1, CHR 0x8C] @ '': ''"

definition TXT_DISTANCE :: string where
  "TXT_DISTANCE =
     '' '' @ [CHR 0xD1, CHR 0x87] @ ''.; '' @
     [CHR 0xD0, CHR 0x94, CHR 0xD0, CHR 0xB8, CHR 0xD1, CHR 0x81, CHR 0xD1, CHR 0x82,
      CHR 0xD0, CHR 0xB0, CHR 0xD0, CHR 0xBD, CHR 0xD1, CHR 0x86, CHR 0xD0, CHR 0xB8,
      CHR 0xD1, CHR 0x8F] @ '': ''"

definition TXT_SPEED :: string where
  "TXT_SPEED =
     '' '' @ [CHR 0xD0, CHR 0xBA, CHR 0xD0, CHR 0xBC] @ ''; '' @
     [CHR 0xD0, CHR 0xA1, CHR 0xD1, CHR 0x80] @ ''. '' @
     [CHR 0xD1, CHR 0x81, CHR 0xD0, CHR 0xBA, CHR 0xD0, CHR 0xBE, CHR 0xD1, CHR 0x80,
      CHR 0xD0, CHR 0xBE, CHR 0xD1, CHR 0x81, CHR 0xD1, CHR 0x82, CHR 0xD1, CHR 0x8C] @ '': ''"

definition TXT_CALORIES :: string where
  "TXT_CALORIES =
     '' '' @ [CHR 0xD0, CHR 0xBA, CHR 0xD0, CHR 0xBC] @ ''/'' @ [CHR 0xD1, CHR 0x87] @ ''; '' @
     [CHR 0xD0, CHR 0x9F, CHR 0xD0, CHR 0xBE, CHR 0xD1, CHR 0x82, CHR 0xD1, CHR 0x80,
      CHR 0xD0, CHR 0xB0, CHR 0xD1, CHR 0x87, CHR 0xD0, CHR 0xB5, CHR 0xD0, CHR 0xBD,
      CHR 0xD0, CHR 0xBE] @ '' '' @
     [CHR 0xD0, CHR 0xBA, CHR 0xD0, CHR 0xBA, CHR 0xD0, CHR 0xB0, CHR 0xD0, CHR 0xBB] @ '': ''"

definition TXT_END :: string where
  "TXT_END = ''.''"

text \<open>
  \<^verbatim>\<open>InfoMessage.get_message\<close>. The duration is formatted with \<^verbatim>\<open>.3f\<close>, the distance,
  the speed and the calories with \<^verbatim>\<open>,.3f\<close>.
\<close>

fun get_message :: "InfoMessage \<Rightarrow> error + string" where
  "get_message (InfoMessage tt dur distance_km sp cal) =
     py_concat (py_concat (py_concat (py_concat (py_concat (py_concat (py_concat (py_concat
       (py_concat (py_concat
         (Inr TXT_TYPE) (Inr tt))
         (Inr TXT_DURATION)) (py_format False dur))
         (Inr TXT_DISTANCE)) (py_format True distance_km))
         (Inr TXT_SPEED)) (py_format True sp))
         (Inr TXT_CALORIES)) (py_format True cal))
         (Inr TXT_END)"

section \<open>Reading a package\<close>

definition correct_list_length :: "string \<rightharpoonup> nat" where
  "correct_list_length = [SWM \<mapsto> LEN_FOR_SWM, RUN \<mapsto> LEN_FOR_RUN, WLK \<mapsto> LEN_FOR_WLK]"

text \<open>
  \<^verbatim>\<open>checking_correct_data\<close> looks for \<^verbatim>\<open>None\<close> first and compares the length second; the
  lookup of the length raises \<^verbatim>\<open>KeyError\<close> for a tag that is not in the dictionary.
\<close>

definition checking_correct_data :: "string \<Rightarrow> pyval list \<Rightarrow> error + bool" where
  "checking_correct_data wrk_typ dat_list =
     (if PyNone \<in> set dat_list then Inr False
      else case correct_list_length wrk_typ of
             None \<Rightarrow> Inl KeyError
           | Some n \<Rightarrow> if length dat_list \<noteq> n then Inr False else Inr True)"

definition training_classes :: "string \<rightharpoonup> (pyval list \<Rightarrow> error + training)" where
  "training_classes = [SWM \<mapsto> call_Swimming, RUN \<mapsto> call_Running, WLK \<mapsto> call_SportsWalking]"

definition read_package :: "string \<Rightarrow> pyval list \<Rightarrow> error + training" where
  "read_package workout_tpe data_list =
     (case training_classes workout_tpe of
        None \<Rightarrow> Inl (Exception NOT_FOUND)
      | Some cls \<Rightarrow>
          (case checking_correct_data workout_tpe data_list of
             Inl e \<Rightarrow> Inl e
           | Inr ok \<Rightarrow> if \<not> ok then Inl (Exception BAD_DATA) else cls data_list))"

text \<open>
  \<^verbatim>\<open>main\<close> prints the message of a training; the result here is the line printed. Its
  other branch prints an argument that is not a training, which \<^verbatim>\<open>read_package\<close> never
  returns.
\<close>

definition main :: "training \<Rightarrow> string outcome" where
  "main training_obj =
     (case show_training_info training_obj of
        (Inl e, s) \<Rightarrow> (Inl e, s)
      | (Inr info, s) \<Rightarrow> (get_message info, s))"

text \<open>
  The body of the loop under \<^verbatim>\<open>__main__\<close>: a package is read and \<^verbatim>\<open>main\<close> prints the line
  of the training that was read. An exception of \<^verbatim>\<open>read_package\<close> ends the run.
\<close>

definition run_package :: "string \<Rightarrow> pyval list \<Rightarrow> error + string" where
  "run_package workout_type data =
     (case read_package workout_type data of
        Inl e \<Rightarrow> Inl e
      | Inr training \<Rightarrow> fst (main training))"

section \<open>The variant without checks\<close>

text \<open>
  \<^verbatim>\<open>homework.py\<close> has the same classes without the two cached attributes, and a
  \<^verbatim>\<open>read_package\<close> that looks the class up and calls it at once.
\<close>

record hw_attrs =
  hw_action :: pyval
  hw_duration :: pyval
  hw_weight :: pyval

datatype hw_training =
    hw_Running hw_attrs
  | hw_SportsWalking hw_attrs pyval
  | hw_Swimming hw_attrs pyval pyval

definition hw_Training_init :: "pyval \<Rightarrow> pyval \<Rightarrow> pyval \<Rightarrow> hw_attrs" where
  "hw_Training_init a d w = \<lparr>hw_action = a, hw_duration = d, hw_weight = w\<rparr>"

definition CM_TO_METERS :: real where "CM_TO_METERS = 100"

definition hw_SportsWalking_init ::
  "pyval \<Rightarrow> pyval \<Rightarrow> pyval \<Rightarrow> pyval \<Rightarrow> error + hw_training" where
  "hw_SportsWalking_init a d w h =
     (case py_truediv (Inr h) (num CM_TO_METERS) of
        Inl e \<Rightarrow> Inl e
      | Inr m \<Rightarrow> Inr (hw_SportsWalking (hw_Training_init a d w) m))"

fun hw_call_Running :: "pyval list \<Rightarrow> error + hw_training" where
  "hw_call_Running [a, d, w] = Inr (hw_Running (hw_Training_init a d w))"
| "hw_call_Running _ = Inl TypeError"

fun hw_call_SportsWalking :: "pyval list \<Rightarrow> error + hw_training" where
  "hw_call_SportsWalking [a, d, w, h] = hw_SportsWalking_init a d w h"
| "hw_call_SportsWalking _ = Inl TypeError"

fun hw_call_Swimming :: "pyval list \<Rightarrow> error + hw_training" where
  "hw_call_Swimming [a, d, w, l, n] = Inr (hw_Swimming (hw_Training_init a d w) l n)"
| "hw_call_Swimming _ = Inl TypeError"

definition hw_training_classes :: "string \<rightharpoonup> (pyval list \<Rightarrow> error + hw_training)" where
  "hw_training_classes =
     [''SWM'' \<mapsto> hw_call_Swimming, ''RUN'' \<mapsto> hw_call_Running, ''WLK'' \<mapsto> hw_call_SportsWalking]"

definition hw_read_package :: "string \<Rightarrow> pyval list \<Rightarrow> error + hw_training" where
  "hw_read_package workout_tpe data_list =
     (case hw_training_classes workout_tpe of
        None \<Rightarrow> Inl KeyError
      | Some cls \<Rightarrow> cls data_list)"

section \<open>Numbers in double precision\<close>

text \<open>
  What a method raises, and what is printed for a number, depends on the machine
  representation: a Python \<^verbatim>\<open>int\<close> is an exact integer of any size, a \<^verbatim>\<open>float\<close> is an
  IEEE 754 binary64 number, and every operation on floats rounds its exact result to the
  nearest double, a tie going to the even neighbour. A float is a finite double, one of
  the two infinities, or a NaN. The sign of a zero is not kept: no exception depends on
  it, and it shows only in the minus sign that is printed for a negative zero.
\<close>

datatype fval = Fin real | PInf | NInf | NaN

text \<open>
  Rounding a real number to a double. The doubles around \<open>x\<close> are the multiples of
  \<^term>\<open>quantum x\<close>: of \<open>2\<close> to the power \<open>e - 52\<close> when the magnitude of \<open>x\<close> lies between \<open>2\<close>
  to the power \<open>e\<close> and \<open>2\<close> to the power \<open>e + 1\<close>, and of \<open>2\<close> to the power \<open>-1074\<close> below
  the smallest normal number, \<open>2\<close> to the power \<open>-1022\<close>. The number is rounded to the
  nearest multiple, the even one of two that are equally near, and a result of magnitude
  \<open>2\<close> to the power \<open>1024\<close> or more is an infinity.
\<close>

definition quantum :: "real \<Rightarrow> real" where
  "quantum x =
     (if \<bar>x\<bar> < 2 powr (- 1022) then 2 powr (- 1074)
      else 2 powr of_int (\<lfloor>log 2 \<bar>x\<bar>\<rfloor> - 52))"

definition round_double :: "real \<Rightarrow> fval" where
  "round_double x =
     (let r = of_int (round_half_even (x / quantum x)) * quantum x
      in if 2 ^ 1024 \<le> \<bar>r\<bar> then (if 0 < x then PInf else NInf) else Fin r)"

text \<open>
  Addition, multiplication and division of floats, with the special values. The division
  is used on a divisor that is not zero: on a zero divisor Python raises before it
  divides.
\<close>

fun negative :: "fval \<Rightarrow> bool" where
  "negative (Fin a) = (a < 0)"
| "negative NInf = True"
| "negative _ = False"

definition infinity :: "bool \<Rightarrow> fval" where
  "infinity neg = (if neg then NInf else PInf)"

fun f_add :: "fval \<Rightarrow> fval \<Rightarrow> fval" where
  "f_add NaN _ = NaN"
| "f_add _ NaN = NaN"
| "f_add (Fin a) (Fin b) = round_double (a + b)"
| "f_add PInf NInf = NaN"
| "f_add NInf PInf = NaN"
| "f_add (Fin a) y = y"
| "f_add x _ = x"

fun f_mul :: "fval \<Rightarrow> fval \<Rightarrow> fval" where
  "f_mul NaN _ = NaN"
| "f_mul _ NaN = NaN"
| "f_mul (Fin a) (Fin b) = round_double (a * b)"
| "f_mul x y = (if x = Fin 0 \<or> y = Fin 0 then NaN else infinity (negative x \<noteq> negative y))"

fun f_div :: "fval \<Rightarrow> fval \<Rightarrow> fval" where
  "f_div NaN _ = NaN"
| "f_div _ NaN = NaN"
| "f_div (Fin a) (Fin b) = round_double (a / b)"
| "f_div (Fin a) _ = Fin 0"
| "f_div x (Fin b) = infinity (negative x \<noteq> negative (Fin b))"
| "f_div _ _ = NaN"

text \<open>
  A number of the program. An operation on two ints is exact. An operation with a float
  operand converts an int operand to a float first, which raises \<^verbatim>\<open>OverflowError\<close> when
  the int is beyond the range of a double.
\<close>

datatype number = PyInt int | PyFloat fval

fun to_double :: "number \<Rightarrow> error + fval" where
  "to_double (PyFloat x) = Inr x"
| "to_double (PyInt n) =
     (case round_double (of_int n) of Fin r \<Rightarrow> Inr (Fin r) | _ \<Rightarrow> Inl OverflowError)"

definition float_op :: "(fval \<Rightarrow> fval \<Rightarrow> error + fval) \<Rightarrow> number \<Rightarrow> number \<Rightarrow> error + number" where
  "float_op f x y =
     (case to_double x of
        Inl e \<Rightarrow> Inl e
      | Inr a \<Rightarrow>
          (case to_double y of
             Inl e \<Rightarrow> Inl e
           | Inr b \<Rightarrow> (case f a b of Inl e \<Rightarrow> Inl e | Inr c \<Rightarrow> Inr (PyFloat c))))"

text \<open>
  The operators \<^verbatim>\<open>+\<close>, \<^verbatim>\<open>*\<close>, \<^verbatim>\<open>/\<close> and \<^verbatim>\<open>** 2\<close> on operands that are evaluated from left
  to right. Float addition, multiplication and division return an infinity or a NaN
  silently. The division raises \<^verbatim>\<open>ZeroDivisionError\<close> on a zero divisor; the true
  division of two ints is the correctly rounded quotient and raises \<^verbatim>\<open>OverflowError\<close>
  when the quotient is beyond the range of a double. The power of a finite float raises
  \<^verbatim>\<open>OverflowError\<close> when the square is beyond the range; the square is taken as correctly
  rounded, and a square that underflows is a small number or zero, without an exception.
\<close>

fun n_add :: "error + number \<Rightarrow> error + number \<Rightarrow> error + number" where
  "n_add (Inl e) _ = Inl e"
| "n_add (Inr _) (Inl e) = Inl e"
| "n_add (Inr (PyInt a)) (Inr (PyInt b)) = Inr (PyInt (a + b))"
| "n_add (Inr x) (Inr y) = float_op (\<lambda>a b. Inr (f_add a b)) x y"

fun n_mul :: "error + number \<Rightarrow> error + number \<Rightarrow> error + number" where
  "n_mul (Inl e) _ = Inl e"
| "n_mul (Inr _) (Inl e) = Inl e"
| "n_mul (Inr (PyInt a)) (Inr (PyInt b)) = Inr (PyInt (a * b))"
| "n_mul (Inr x) (Inr y) = float_op (\<lambda>a b. Inr (f_mul a b)) x y"

fun n_truediv :: "error + number \<Rightarrow> error + number \<Rightarrow> error + number" where
  "n_truediv (Inl e) _ = Inl e"
| "n_truediv (Inr _) (Inl e) = Inl e"
| "n_truediv (Inr (PyInt a)) (Inr (PyInt b)) =
     (if b = 0 then Inl ZeroDivisionError
      else case round_double (of_int a / of_int b) of
             Fin r \<Rightarrow> Inr (PyFloat (Fin r))
           | _ \<Rightarrow> Inl OverflowError)"
| "n_truediv (Inr x) (Inr y) =
     float_op (\<lambda>a b. if b = Fin 0 then Inl ZeroDivisionError else Inr (f_div a b)) x y"

fun n_square :: "error + number \<Rightarrow> error + number" where
  "n_square (Inl e) = Inl e"
| "n_square (Inr (PyInt a)) = Inr (PyInt (a * a))"
| "n_square (Inr (PyFloat (Fin a))) =
     (case round_double (a * a) of
        Fin r \<Rightarrow> Inr (PyFloat (Fin r))
      | _ \<Rightarrow> Inl OverflowError)"
| "n_square (Inr (PyFloat NaN)) = Inr (PyFloat NaN)"
| "n_square (Inr (PyFloat _)) = Inr (PyFloat PInf)"
section \<open>The formulas in double precision\<close>

text \<open>
  The classes and the methods of \<^verbatim>\<open>main.py\<close> once more, on numbers in double precision.
  The structure is that of the definitions above, operator by operator.
\<close>

record attrs64 =
  action64 :: number
  duration64 :: number
  weight64 :: number
  spent_calories64 :: number
  mean_speed_km_h64 :: number

datatype training64 =
    Training64 (common64: attrs64)
  | Running64 (common64: attrs64)
  | SportsWalking64 (common64: attrs64) (height64: number)
  | Swimming64 (common64: attrs64) (length_pool64: number) (count_pool64: number)

fun update_common64 :: "(attrs64 \<Rightarrow> attrs64) \<Rightarrow> training64 \<Rightarrow> training64" where
  "update_common64 f (Training64 c) = Training64 (f c)"
| "update_common64 f (Running64 c) = Running64 (f c)"
| "update_common64 f (SportsWalking64 c h) = SportsWalking64 (f c) h"
| "update_common64 f (Swimming64 c l n) = Swimming64 (f c) l n"

text \<open>An int literal is itself; a float literal is the double nearest to its decimal.\<close>

definition int_const :: "int \<Rightarrow> error + number" where
  "int_const n = Inr (PyInt n)"

definition float_const :: "real \<Rightarrow> error + number" where
  "float_const x = Inr (PyFloat (round_double x))"

fun LEN_STEP64 :: "training64 \<Rightarrow> error + number" where
  "LEN_STEP64 (Swimming64 _ _ _) = float_const 1.38"
| "LEN_STEP64 _ = float_const 0.65"

definition M_IN_KM64 :: "error + number" where "M_IN_KM64 = int_const 1000"
definition MIN_IN_HOUR64 :: "error + number" where "MIN_IN_HOUR64 = int_const 60"
definition CALORIES_MEAN_SPEED_MULTIPLIER64 :: "error + number" where
  "CALORIES_MEAN_SPEED_MULTIPLIER64 = int_const 18"
definition CALORIES_MEAN_SPEED_SHIFT64 :: "error + number" where
  "CALORIES_MEAN_SPEED_SHIFT64 = float_const 1.79"
definition CALORIES_WEIGHT_FACTOR_1_64 :: "error + number" where
  "CALORIES_WEIGHT_FACTOR_1_64 = float_const 0.035"
definition CALORIES_WEIGHT_FACTOR_2_64 :: "error + number" where
  "CALORIES_WEIGHT_FACTOR_2_64 = float_const 0.029"
definition M_TO_SEC_CONVERTER64 :: "error + number" where
  "M_TO_SEC_CONVERTER64 = float_const 0.278"
definition CM_IN_METER64 :: "error + number" where "CM_IN_METER64 = int_const 100"
definition SPEED_SWIM_SHIFT64 :: "error + number" where "SPEED_SWIM_SHIFT64 = float_const 1.1"
definition CALORIES_SPEED_SWIM_MULTIPLIER64 :: "error + number" where
  "CALORIES_SPEED_SWIM_MULTIPLIER64 = int_const 2"



type_synonym 'a outcome64 = "(error + 'a) \<times> training64"

definition get_distance64 :: "training64 \<Rightarrow> number outcome64" where
  "get_distance64 self =
     (n_truediv (n_mul (Inr (action64 (common64 self))) (LEN_STEP64 self)) M_IN_KM64, self)"

definition Training_get_mean_speed64 :: "training64 \<Rightarrow> number outcome64" where
  "Training_get_mean_speed64 self =
     (case get_distance64 self of (distance_km, s) \<Rightarrow>
        (case n_truediv distance_km (Inr (duration64 (common64 s))) of
           Inl e \<Rightarrow> (Inl e, s)
         | Inr v \<Rightarrow>
             (let s' = update_common64 (\<lambda>c. c\<lparr>mean_speed_km_h64 := v\<rparr>) s
              in (Inr (mean_speed_km_h64 (common64 s')), s'))))"

definition Swimming_get_mean_speed64 :: "attrs64 \<Rightarrow> number \<Rightarrow> number \<Rightarrow> number outcome64" where
  "Swimming_get_mean_speed64 c l n =
     (case n_truediv (n_truediv (n_mul (Inr l) (Inr n)) M_IN_KM64) (Inr (duration64 c)) of
        Inl e \<Rightarrow> (Inl e, Swimming64 c l n)
      | Inr v \<Rightarrow>
          (let s' = Swimming64 (c\<lparr>mean_speed_km_h64 := v\<rparr>) l n
           in (Inr (mean_speed_km_h64 (common64 s')), s')))"

fun get_mean_speed64 :: "training64 \<Rightarrow> number outcome64" where
  "get_mean_speed64 (Swimming64 c l n) = Swimming_get_mean_speed64 c l n"
| "get_mean_speed64 self = Training_get_mean_speed64 self"

definition store_spent_calories64 :: "error + number \<Rightarrow> training64 \<Rightarrow> number outcome64" where
  "store_spent_calories64 r s =
     (case r of
        Inl e \<Rightarrow> (Inl e, s)
      | Inr v \<Rightarrow>
          (let s' = update_common64 (\<lambda>c. c\<lparr>spent_calories64 := v\<rparr>) s
           in (Inr (spent_calories64 (common64 s')), s')))"

definition Training_get_spent_calories64 :: "training64 \<Rightarrow> number outcome64" where
  "Training_get_spent_calories64 self = (Inl NotImplementedError, self)"

definition Running_get_spent_calories64 :: "training64 \<Rightarrow> number outcome64" where
  "Running_get_spent_calories64 self =
     (case get_mean_speed64 self of (mean_speed, s) \<Rightarrow>
        store_spent_calories64
          (n_mul
             (n_truediv
                (n_mul
                   (n_add (n_mul CALORIES_MEAN_SPEED_MULTIPLIER64 mean_speed)
                      CALORIES_MEAN_SPEED_SHIFT64)
                   (Inr (weight64 (common64 s))))
                M_IN_KM64)
             (n_mul (Inr (duration64 (common64 s))) MIN_IN_HOUR64))
          s)"

definition SportsWalking_get_spent_calories64 :: "attrs64 \<Rightarrow> number \<Rightarrow> number outcome64" where
  "SportsWalking_get_spent_calories64 c h =
     (case get_mean_speed64 (SportsWalking64 c h) of (mean_speed, s) \<Rightarrow>
        (case n_mul mean_speed M_TO_SEC_CONVERTER64 of
           Inl e \<Rightarrow> (Inl e, s)
         | Inr meters_in_sec \<Rightarrow>
             store_spent_calories64
               (n_mul
                  (n_mul
                     (n_add
                        (n_mul CALORIES_WEIGHT_FACTOR_1_64 (Inr (weight64 (common64 s))))
                        (n_mul
                           (n_mul
                              (n_truediv (n_square (Inr meters_in_sec)) (Inr (height64 s)))
                              CALORIES_WEIGHT_FACTOR_2_64)
                           (Inr (weight64 (common64 s)))))
                     (Inr (duration64 (common64 s))))
                  MIN_IN_HOUR64)
               s))"

definition Swimming_get_spent_calories64 :: "training64 \<Rightarrow> number outcome64" where
  "Swimming_get_spent_calories64 self =
     (case get_mean_speed64 self of (mean_speed, s) \<Rightarrow>
        store_spent_calories64
          (n_mul
             (n_mul
                (n_mul (n_add mean_speed SPEED_SWIM_SHIFT64)
                   CALORIES_SPEED_SWIM_MULTIPLIER64)
                (Inr (weight64 (common64 s))))
             (Inr (duration64 (common64 s))))
          s)"

fun get_spent_calories64 :: "training64 \<Rightarrow> number outcome64" where
  "get_spent_calories64 (Training64 c) = Training_get_spent_calories64 (Training64 c)"
| "get_spent_calories64 (Running64 c) = Running_get_spent_calories64 (Running64 c)"
| "get_spent_calories64 (SportsWalking64 c h) = SportsWalking_get_spent_calories64 c h"
| "get_spent_calories64 (Swimming64 c l n) = Swimming_get_spent_calories64 (Swimming64 c l n)"
section \<open>The message in double precision\<close>

text \<open>
  A float format specification converts an int to a float first. A finite number is
  written with three decimals as above; an infinity is written \<^verbatim>\<open>inf\<close> or \<^verbatim>\<open>-inf\<close> and a
  NaN \<^verbatim>\<open>nan\<close>, with or without the comma option.
\<close>

fun format_fval :: "bool \<Rightarrow> fval \<Rightarrow> string" where
  "format_fval grouping (Fin x) = format_f3 grouping x"
| "format_fval grouping PInf = ''inf''"
| "format_fval grouping NInf = ''-inf''"
| "format_fval grouping NaN = ''nan''"

definition py_format64 :: "bool \<Rightarrow> number \<Rightarrow> error + string" where
  "py_format64 grouping x =
     (case to_double x of Inl e \<Rightarrow> Inl e | Inr a \<Rightarrow> Inr (format_fval grouping a))"

datatype InfoMessage64 =
  InfoMessage64 (training_type64: string) (duration_h64: number) (distance64: number)
    (speed64: number) (calories64: number)

fun get_message64 :: "InfoMessage64 \<Rightarrow> error + string" where
  "get_message64 (InfoMessage64 tt dur distance_km sp cal) =
     py_concat (py_concat (py_concat (py_concat (py_concat (py_concat (py_concat (py_concat
       (py_concat (py_concat
         (Inr TXT_TYPE) (Inr tt))
         (Inr TXT_DURATION)) (py_format64 False dur))
         (Inr TXT_DISTANCE)) (py_format64 True distance_km))
         (Inr TXT_SPEED)) (py_format64 True sp))
         (Inr TXT_CALORIES)) (py_format64 True cal))
         (Inr TXT_END)"


section \<open>Notions used in the statements\<close>

text \<open>
  An object with its two cached attributes put back to \<^verbatim>\<open>0.0\<close>: two objects with the same
  image have the same class and the same attributes read from the package.
\<close>

definition as_constructed :: "training \<Rightarrow> training" where
  "as_constructed r =
     update_common (\<lambda>c. c\<lparr>spent_calories := Num 0, mean_speed_km_h := Num 0\<rparr>) r"

text \<open>
  The shape of a rendered number: a digit, an integer part without commas, and an
  integer part with commas, read from the right as groups of three digits with a comma
  after each group that has digits to its left.
\<close>

definition is_digit :: "char \<Rightarrow> bool" where
  "is_digit c = (c \<in> set ''0123456789'')"

definition plain :: "string \<Rightarrow> bool" where
  "plain s = (s \<noteq> [] \<and> list_all is_digit s)"

fun grouped_rev :: "string \<Rightarrow> bool" where
  "grouped_rev (a # b # c # d # ds) =
     (is_digit a \<and> is_digit b \<and> is_digit c \<and> d = CHR '','' \<and> grouped_rev ds)"
| "grouped_rev ds = plain ds"

definition grouped :: "string \<Rightarrow> bool" where
  "grouped s = grouped_rev (rev s)"

text \<open>The number a run of digits denotes.\<close>

definition digit_value :: "char \<Rightarrow> nat" where
  "digit_value c = of_char c - 48"

definition number_of :: "string \<Rightarrow> nat" where
  "number_of ds = foldl (\<lambda>v c. 10 * v + digit_value c) 0 ds"

text \<open>
  The message as the specification words it, with the thousands separator in all four
  numbers. It is compared with \<^const>\<open>get_message\<close> below and is not part of the program.
\<close>

definition get_message_as_claimed :: "InfoMessage \<Rightarrow> error + string" where
  "get_message_as_claimed m =
     py_concat (py_concat (py_concat (py_concat (py_concat (py_concat (py_concat (py_concat
       (py_concat (py_concat
         (Inr TXT_TYPE) (Inr (training_type m)))
         (Inr TXT_DURATION)) (py_format True (InfoMessage.duration m)))
         (Inr TXT_DISTANCE)) (py_format True (distance m)))
         (Inr TXT_SPEED)) (py_format True (speed m)))
         (Inr TXT_CALORIES)) (py_format True (calories m)))
         (Inr TXT_END)"



text \<open>An object with its two cached attributes set back to their initial value.\<close>

definition as_constructed64 :: "training64 \<Rightarrow> training64" where
  "as_constructed64 r =
     update_common64
       (\<lambda>c. c\<lparr>spent_calories64 := PyFloat (Fin 0), mean_speed_km_h64 := PyFloat (Fin 0)\<rparr>) r"

text \<open>
  What it means that the string \<open>s\<close> renders the number \<open>x\<close> with three decimals. There is
  an integer \<open>k\<close> nearest to a thousand times the magnitude of \<open>x\<close>, the even one of the two
  when \<open>x\<close> lies half-way; \<open>s\<close> is a minus sign when \<open>x\<close> is negative, an integer part, a
  point and three digits; the integer part is a run of digits, in groups of three divided
  by commas if \<open>grouping\<close> is set, with no leading zero unless it is the single digit zero;
  and the digits of the integer part followed by the three decimals denote \<open>k\<close>.
\<close>

definition canonical :: "string \<Rightarrow> bool" where
  "canonical ds = (ds = ''0'' \<or> ds \<noteq> [] \<and> hd ds \<noteq> CHR ''0'')"

definition renders :: "bool \<Rightarrow> real \<Rightarrow> string \<Rightarrow> bool" where
  "renders grouping x s =
     (\<exists>k int_part frac.
        \<bar>of_int k - \<bar>x\<bar> * 1000\<bar> \<le> 1 / 2 \<and>
        (\<bar>of_int k - \<bar>x\<bar> * 1000\<bar> = 1 / 2 \<longrightarrow> even k) \<and>
        s = (if x < 0 then ''-'' else []) @ int_part @ ''.'' @ frac \<and>
        length frac = 3 \<and> list_all is_digit frac \<and>
        (if grouping then grouped int_part else plain int_part) \<and>
        canonical (filter (\<lambda>c. c \<noteq> CHR '','') int_part) \<and>
        int (number_of (filter (\<lambda>c. c \<noteq> CHR '','') int_part)) * 1000 + int (number_of frac) = k)"

lemmas constant_defs = M_IN_KM_def MIN_IN_HOUR_def CALORIES_MEAN_SPEED_MULTIPLIER_def
  CALORIES_MEAN_SPEED_SHIFT_def CALORIES_WEIGHT_FACTOR_1_def CALORIES_WEIGHT_FACTOR_2_def
  M_TO_SEC_CONVERTER_def CM_IN_METER_def SPEED_SWIM_SHIFT_def CALORIES_SPEED_SWIM_MULTIPLIER_def

lemmas method_defs = get_distance_def Training_get_mean_speed_def Swimming_get_mean_speed_def
  store_spent_calories_def Training_get_spent_calories_def Running_get_spent_calories_def
  SportsWalking_get_spent_calories_def Swimming_get_spent_calories_def num_def

lemmas format_defs = format_f3_def round_half_even_def digits.simps digit_char_def
  group_thousands_def

lemmas constant64_defs = int_const_def float_const_def M_IN_KM64_def MIN_IN_HOUR64_def
  CALORIES_MEAN_SPEED_MULTIPLIER64_def CALORIES_MEAN_SPEED_SHIFT64_def
  CALORIES_WEIGHT_FACTOR_1_64_def CALORIES_WEIGHT_FACTOR_2_64_def M_TO_SEC_CONVERTER64_def
  CM_IN_METER64_def SPEED_SWIM_SHIFT64_def CALORIES_SPEED_SWIM_MULTIPLIER64_def

section \<open>Properties of reading a package\<close>

lemma tags_distinct:
  "SWM \<noteq> RUN" "SWM \<noteq> WLK" "RUN \<noteq> WLK" "RUN \<noteq> SWM" "WLK \<noteq> SWM" "WLK \<noteq> RUN"
  by (simp_all add: SWM_def RUN_def WLK_def)

lemma read_package_bad:
  "workout_tpe \<in> {SWM, RUN, WLK} \<Longrightarrow>
   PyNone \<in> set data_list \<or>
     length data_list \<noteq> (if workout_tpe = SWM then 5 else if workout_tpe = RUN then 3 else 4) \<Longrightarrow>
   read_package workout_tpe data_list = Inl (Exception BAD_DATA)"
  by (auto simp: read_package_def training_classes_def checking_correct_data_def
      correct_list_length_def tags_distinct LEN_FOR_SWM_def LEN_FOR_RUN_def LEN_FOR_WLK_def)

lemma read_package_RUN:
  "PyNone \<notin> {a, d, w} \<Longrightarrow>
   read_package RUN [a, d, w] =
     Inr (Running \<lparr>action = a, duration = d, weight = w,
                    spent_calories = Num 0, mean_speed_km_h = Num 0\<rparr>)"
  by (auto simp: read_package_def training_classes_def checking_correct_data_def
      correct_list_length_def tags_distinct LEN_FOR_RUN_def Training_init_def)

lemma read_package_SWM:
  "PyNone \<notin> {a, d, w, l, n} \<Longrightarrow>
   read_package SWM [a, d, w, l, n] =
     Inr (Swimming \<lparr>action = a, duration = d, weight = w,
                     spent_calories = Num 0, mean_speed_km_h = Num 0\<rparr> l n)"
  by (auto simp: read_package_def training_classes_def checking_correct_data_def
      correct_list_length_def tags_distinct LEN_FOR_SWM_def Training_init_def Swimming_init_def)

lemma read_package_WLK:
  "PyNone \<notin> {a, d, w} \<Longrightarrow>
   read_package WLK [a, d, w, Num h] =
     Inr (SportsWalking \<lparr>action = a, duration = d, weight = w,
                          spent_calories = Num 0, mean_speed_km_h = Num 0\<rparr> (Num (h / 100)))"
  by (auto simp: read_package_def training_classes_def checking_correct_data_def
      correct_list_length_def tags_distinct LEN_FOR_WLK_def Training_init_def
      SportsWalking_init_def num_def CM_IN_METER_def)

lemma read_package_tag_first:
  "workout_tpe \<notin> {SWM, RUN, WLK} \<Longrightarrow>
   read_package workout_tpe data_list = Inl (Exception NOT_FOUND)"
  by (simp add: read_package_def training_classes_def)

lemma checking_None_first:
  "PyNone \<in> set dat_list \<Longrightarrow> checking_correct_data wrk_typ dat_list = Inr False"
  by (simp add: checking_correct_data_def)

text \<open>
  C4. A tag other than \<^verbatim>\<open>"SWM"\<close>, \<^verbatim>\<open>"RUN"\<close> and \<^verbatim>\<open>"WLK"\<close> makes \<^verbatim>\<open>read_package\<close> raise the
  exception with the message \<^verbatim>\<open>NOT_FOUND\<close>, whatever the list of values is: the result is
  the exception, so no training object is built.
\<close>

theorem read_package_unknown_tag:
  "workout_tpe \<notin> {SWM, RUN, WLK} \<Longrightarrow>
   read_package workout_tpe data_list = Inl (Exception NOT_FOUND)"
  by (simp add: read_package_def training_classes_def)

theorem read_package_unknown_tag_witness:
  "''XYZ'' \<notin> {SWM, RUN, WLK} \<and>
   read_package ''XYZ'' [Num 1, Num 2, Num 3] = Inl (Exception NOT_FOUND)"
  using read_package_unknown_tag [of "''XYZ''" "[Num 1, Num 2, Num 3]"]
  by (simp add: SWM_def RUN_def WLK_def)

text \<open>
  C5. The tag is looked up first: an unknown tag raises the exception with the message
  \<^verbatim>\<open>NOT_FOUND\<close> whatever the list holds. For a recognised tag, \<^verbatim>\<open>read_package\<close>
  raises the exception with the message \<^verbatim>\<open>BAD_DATA\<close> when the list holds \<^verbatim>\<open>None\<close> or its length is not the one of the tag (5 for
  \<^verbatim>\<open>"SWM"\<close>, 3 for \<^verbatim>\<open>"RUN"\<close>, 4 for \<^verbatim>\<open>"WLK"\<close>); the result is then the exception and no
  object. The search for \<^verbatim>\<open>None\<close> comes before the length: \<^verbatim>\<open>checking_correct_data\<close>
  answers \<^verbatim>\<open>False\<close> on a list with \<^verbatim>\<open>None\<close> for any tag, without looking the length up.
  Every other list is one of the three shapes below, and gives the object of the tag's
  class with the values assigned by position (the height divided by 100).
\<close>

theorem read_package_validation:
  "(workout_tpe \<notin> {SWM, RUN, WLK} \<longrightarrow>
      read_package workout_tpe data_list = Inl (Exception NOT_FOUND)) \<and>
   (workout_tpe \<in> {SWM, RUN, WLK} \<longrightarrow>
      PyNone \<in> set data_list \<or>
        length data_list \<noteq> (if workout_tpe = SWM then 5 else if workout_tpe = RUN then 3 else 4) \<longrightarrow>
      read_package workout_tpe data_list = Inl (Exception BAD_DATA)) \<and>
   (PyNone \<in> set data_list \<longrightarrow> checking_correct_data wrk_typ data_list = Inr False) \<and>
   (PyNone \<notin> {a, d, w} \<longrightarrow>
      read_package RUN [a, d, w] =
        Inr (Running \<lparr>action = a, duration = d, weight = w,
                       spent_calories = Num 0, mean_speed_km_h = Num 0\<rparr>)) \<and>
   (PyNone \<notin> {a, d, w} \<longrightarrow>
      read_package WLK [a, d, w, Num h] =
        Inr (SportsWalking \<lparr>action = a, duration = d, weight = w,
                             spent_calories = Num 0, mean_speed_km_h = Num 0\<rparr> (Num (h / 100)))) \<and>
   (PyNone \<notin> {a, d, w, l, n} \<longrightarrow>
      read_package SWM [a, d, w, l, n] =
        Inr (Swimming \<lparr>action = a, duration = d, weight = w,
                        spent_calories = Num 0, mean_speed_km_h = Num 0\<rparr> l n))"
  using read_package_tag_first [of workout_tpe data_list]
    read_package_bad [of workout_tpe data_list] checking_None_first [of data_list wrk_typ]
    read_package_RUN [of a d w] read_package_WLK [of a d w h] read_package_SWM [of a d w l n]
  by blast

theorem read_package_validation_witness:
  "''XYZ'' \<notin> {SWM, RUN, WLK} \<and>
   read_package ''XYZ'' [Num 15000, PyNone] = Inl (Exception NOT_FOUND) \<and>
   RUN \<in> {SWM, RUN, WLK} \<and> PyNone \<in> set [Num 15000, PyNone] \<and>
   length [Num 15000, PyNone] \<noteq> (if RUN = SWM then 5 else if RUN = RUN then 3 else 4) \<and>
   read_package RUN [Num 15000, PyNone] = Inl (Exception BAD_DATA) \<and>
   checking_correct_data ''XYZ'' [Num 15000, PyNone] = Inr False \<and>
   PyNone \<notin> {Num 9000, Num 1, Num 75} \<and>
   read_package RUN [Num 9000, Num 1, Num 75] =
     Inr (Running \<lparr>action = Num 9000, duration = Num 1, weight = Num 75,
                    spent_calories = Num 0, mean_speed_km_h = Num 0\<rparr>) \<and>
   read_package WLK [Num 9000, Num 1, Num 75, Num 180] =
     Inr (SportsWalking \<lparr>action = Num 9000, duration = Num 1, weight = Num 75,
                          spent_calories = Num 0, mean_speed_km_h = Num 0\<rparr> (Num (180 / 100))) \<and>
   PyNone \<notin> {Num 9000, Num 1, Num 75, Num 25, Num 40} \<and>
   read_package SWM [Num 9000, Num 1, Num 75, Num 25, Num 40] =
     Inr (Swimming \<lparr>action = Num 9000, duration = Num 1, weight = Num 75,
                     spent_calories = Num 0, mean_speed_km_h = Num 0\<rparr> (Num 25) (Num 40))"
  using read_package_validation [where workout_tpe = RUN and data_list = "[Num 15000, PyNone]"
      and wrk_typ = "''XYZ''" and a = "Num 9000" and d = "Num 1" and w = "Num 75"
      and h = 180 and l = "Num 25" and n = "Num 40"]
    read_package_validation [where workout_tpe = "''XYZ''" and data_list = "[Num 15000, PyNone]"]
  by (simp add: tags_distinct SWM_def RUN_def WLK_def)

section \<open>Properties of the variant without checks\<close>

lemma hw_unknown_tag:
  "t \<notin> {''SWM'', ''RUN'', ''WLK''} \<Longrightarrow> hw_read_package t vs = Inl KeyError"
  by (simp add: hw_read_package_def hw_training_classes_def)

lemma hw_call_Running_length: "length vs \<noteq> 3 \<Longrightarrow> hw_call_Running vs = Inl TypeError"
  by (cases vs rule: hw_call_Running.cases) simp_all

lemma hw_call_SportsWalking_length:
  "length vs \<noteq> 4 \<Longrightarrow> hw_call_SportsWalking vs = Inl TypeError"
  by (cases vs rule: hw_call_SportsWalking.cases) simp_all

lemma hw_call_Swimming_length: "length vs \<noteq> 5 \<Longrightarrow> hw_call_Swimming vs = Inl TypeError"
  by (cases vs rule: hw_call_Swimming.cases) simp_all

lemma hw_wrong_length:
  "t \<in> {''SWM'', ''RUN'', ''WLK''} \<Longrightarrow>
   length vs \<noteq> (if t = ''SWM'' then 5 else if t = ''RUN'' then 3 else 4) \<Longrightarrow>
   hw_read_package t vs = Inl TypeError"
  by (auto simp: hw_read_package_def hw_training_classes_def hw_call_Running_length
      hw_call_SportsWalking_length hw_call_Swimming_length)

lemma hw_right_length:
  "hw_read_package ''RUN'' [a, d, w] =
     Inr (hw_Running \<lparr>hw_action = a, hw_duration = d, hw_weight = w\<rparr>)"
  "hw_read_package ''SWM'' [a, d, w, l, n] =
     Inr (hw_Swimming \<lparr>hw_action = a, hw_duration = d, hw_weight = w\<rparr> l n)"
  "hw_read_package ''WLK'' [a, d, w, Num h] =
     Inr (hw_SportsWalking \<lparr>hw_action = a, hw_duration = d, hw_weight = w\<rparr> (Num (h / 100)))"
  "hw_read_package ''WLK'' [a, d, w, PyNone] = Inl TypeError"
  by (simp_all add: hw_read_package_def hw_training_classes_def hw_Training_init_def
      hw_SportsWalking_init_def num_def CM_TO_METERS_def)

text \<open>
  C10, as the claim states it, fails: a \<^verbatim>\<open>"WLK"\<close> list of the right length whose height
  is \<^verbatim>\<open>None\<close> is not passed into an object. The constructor divides the height by 100,
  which raises \<^verbatim>\<open>TypeError\<close>.
\<close>

theorem hw_read_package_None_height_counterexample:
  "hw_read_package ''WLK'' [Num 9000, Num 1, Num 75, PyNone] = Inl TypeError"
  by (simp add: hw_read_package_def hw_training_classes_def hw_SportsWalking_init_def num_def)

text \<open>
  C10, amended. \<^verbatim>\<open>read_package\<close> of \<^verbatim>\<open>homework.py\<close> checks nothing: a tag that is not in
  the dictionary raises \<^verbatim>\<open>KeyError\<close>, a list of the wrong length raises the
  \<^verbatim>\<open>TypeError\<close> of the constructor call, and a list of the right length goes into the
  object as it is, \<^verbatim>\<open>None\<close> included, except that the height of a \<^verbatim>\<open>"WLK"\<close> list is
  divided by 100, so that a \<^verbatim>\<open>None\<close> height raises \<^verbatim>\<open>TypeError\<close>.
\<close>

theorem hw_read_package_unchecked:
  "(t \<notin> {''SWM'', ''RUN'', ''WLK''} \<longrightarrow> hw_read_package t vs = Inl KeyError) \<and>
   (t \<in> {''SWM'', ''RUN'', ''WLK''} \<longrightarrow>
      length vs \<noteq> (if t = ''SWM'' then 5 else if t = ''RUN'' then 3 else 4) \<longrightarrow>
      hw_read_package t vs = Inl TypeError) \<and>
   hw_read_package ''RUN'' [a, d, w] =
     Inr (hw_Running \<lparr>hw_action = a, hw_duration = d, hw_weight = w\<rparr>) \<and>
   hw_read_package ''SWM'' [a, d, w, l, n] =
     Inr (hw_Swimming \<lparr>hw_action = a, hw_duration = d, hw_weight = w\<rparr> l n) \<and>
   hw_read_package ''WLK'' [a, d, w, Num h] =
     Inr (hw_SportsWalking \<lparr>hw_action = a, hw_duration = d, hw_weight = w\<rparr> (Num (h / 100))) \<and>
   hw_read_package ''WLK'' [a, d, w, PyNone] = Inl TypeError"
  using hw_unknown_tag [of t vs] hw_wrong_length [of t vs] hw_right_length [of a d w]
    hw_right_length(2) [of a d w l n] hw_right_length(3) [of a d w h]
  by blast

theorem hw_read_package_unchecked_witness:
  "''XYZ'' \<notin> {''SWM'', ''RUN'', ''WLK''} \<and>
   hw_read_package ''XYZ'' [Num 1, Num 2, Num 3] = Inl KeyError \<and>
   ''RUN'' \<in> {''SWM'', ''RUN'', ''WLK''} \<and>
   length [Num 15000, Num 1 :: pyval] \<noteq>
     (if ''RUN'' = ''SWM'' then 5 else if ''RUN'' = ''RUN'' then 3 else 4) \<and>
   hw_read_package ''RUN'' [Num 15000, Num 1] = Inl TypeError \<and>
   hw_read_package ''RUN'' [Num 15000, PyNone, Num 75] =
     Inr (hw_Running \<lparr>hw_action = Num 15000, hw_duration = PyNone, hw_weight = Num 75\<rparr>)"
  using hw_read_package_unchecked [where t = "''XYZ''" and vs = "[Num 1, Num 2, Num 3]"]
    hw_read_package_unchecked [where t = "''RUN''" and vs = "[Num 15000, Num 1]"
      and a = "Num 15000" and d = PyNone and w = "Num 75"]
  by simp

section \<open>Properties of the formulas\<close>

subsection \<open>The values the methods return\<close>

lemma Running_values:
  fixes a d w :: real and sc ms :: pyval
  assumes "d \<noteq> 0"
  defines "c \<equiv> \<lparr>action = Num a, duration = Num d, weight = Num w,
                  spent_calories = sc, mean_speed_km_h = ms\<rparr>"
  shows "get_distance (Running c) = (Inr (Num (a * 0.65 / 1000)), Running c)"
    and "get_mean_speed (Running c) =
      (Inr (Num (a * 0.65 / 1000 / d)),
       Running (c\<lparr>mean_speed_km_h := Num (a * 0.65 / 1000 / d)\<rparr>))"
    and "get_spent_calories (Running c) =
      (Inr (Num ((18 * (a * 0.65 / 1000 / d) + 1.79) * w / 1000 * (d * 60))),
       Running (c\<lparr>mean_speed_km_h := Num (a * 0.65 / 1000 / d),
          spent_calories := Num ((18 * (a * 0.65 / 1000 / d) + 1.79) * w / 1000 * (d * 60))\<rparr>))"
  using assms by (simp_all add: method_defs constant_defs)

lemma SportsWalking_values:
  fixes a d w h :: real and sc ms :: pyval
  assumes "d \<noteq> 0" "h \<noteq> 0"
  defines "c \<equiv> \<lparr>action = Num a, duration = Num d, weight = Num w,
                  spent_calories = sc, mean_speed_km_h = ms\<rparr>"
  shows "get_distance (SportsWalking c (Num h)) =
      (Inr (Num (a * 0.65 / 1000)), SportsWalking c (Num h))"
    and "get_mean_speed (SportsWalking c (Num h)) =
      (Inr (Num (a * 0.65 / 1000 / d)),
       SportsWalking (c\<lparr>mean_speed_km_h := Num (a * 0.65 / 1000 / d)\<rparr>) (Num h))"
    and "get_spent_calories (SportsWalking c (Num h)) =
      (Inr (Num ((0.035 * w + ((a * 0.65 / 1000 / d * 0.278) ^ 2 / h) * 0.029 * w) * d * 60)),
       SportsWalking (c\<lparr>mean_speed_km_h := Num (a * 0.65 / 1000 / d),
          spent_calories :=
            Num ((0.035 * w + ((a * 0.65 / 1000 / d * 0.278) ^ 2 / h) * 0.029 * w) * d * 60)\<rparr>)
         (Num h))"
  using assms by (simp_all add: method_defs constant_defs)

lemma Swimming_values:
  fixes a d w l n :: real and sc ms :: pyval
  assumes "d \<noteq> 0"
  defines "c \<equiv> \<lparr>action = Num a, duration = Num d, weight = Num w,
                  spent_calories = sc, mean_speed_km_h = ms\<rparr>"
  shows "get_distance (Swimming c (Num l) (Num n)) =
      (Inr (Num (a * 1.38 / 1000)), Swimming c (Num l) (Num n))"
    and "get_mean_speed (Swimming c (Num l) (Num n)) =
      (Inr (Num (l * n / 1000 / d)),
       Swimming (c\<lparr>mean_speed_km_h := Num (l * n / 1000 / d)\<rparr>) (Num l) (Num n))"
    and "get_spent_calories (Swimming c (Num l) (Num n)) =
      (Inr (Num ((l * n / 1000 / d + 1.1) * 2 * w * d)),
       Swimming (c\<lparr>mean_speed_km_h := Num (l * n / 1000 / d),
          spent_calories := Num ((l * n / 1000 / d + 1.1) * 2 * w * d)\<rparr>) (Num l) (Num n))"
  using assms by (simp_all add: method_defs constant_defs)

text \<open>The speed of a swimmer reads the pool and the duration only.\<close>

lemma Swimming_mean_speed_reads:
  "fst (Swimming_get_mean_speed c l n) =
     py_truediv (py_truediv (py_mul (Inr l) (Inr n)) (Inr (Num 1000))) (Inr (duration c))"
  by (simp add: method_defs constant_defs split: sum.splits)

text \<open>
  The error branches are live: a duration of zero makes the division of
  \<^verbatim>\<open>get_mean_speed\<close> raise, and the object keeps its attributes.
\<close>

lemma zero_duration_raises:
  "get_mean_speed (Running (Training_init (Num 15000) (Num 0) (Num 75))) =
     (Inl ZeroDivisionError, Running (Training_init (Num 15000) (Num 0) (Num 75)))"
  by (simp add: method_defs constant_defs Training_init_def)

text \<open>
  C1. For a \<^verbatim>\<open>Running\<close> object with a positive duration, \<^verbatim>\<open>get_distance\<close> returns
  \<open>action * 0.65 / 1000\<close>, \<^verbatim>\<open>get_mean_speed\<close> returns that distance divided by the
  duration, and \<^verbatim>\<open>get_spent_calories\<close> returns
  \<open>(18 * mean_speed + 1.79) * weight / 1000 * (duration * 60)\<close>. The cached attributes
  may hold anything; the count and the weight need not be positive for the equations.
\<close>

theorem Running_get_spent_calories_formula:
  fixes a d w :: real and sc ms :: pyval
  assumes "0 < d"
  shows "fst (get_distance (Running \<lparr>action = Num a, duration = Num d, weight = Num w,
            spent_calories = sc, mean_speed_km_h = ms\<rparr>)) = Inr (Num (a * 0.65 / 1000)) \<and>
         fst (get_mean_speed (Running \<lparr>action = Num a, duration = Num d, weight = Num w,
            spent_calories = sc, mean_speed_km_h = ms\<rparr>)) = Inr (Num (a * 0.65 / 1000 / d)) \<and>
         fst (get_spent_calories (Running \<lparr>action = Num a, duration = Num d, weight = Num w,
            spent_calories = sc, mean_speed_km_h = ms\<rparr>)) =
           Inr (Num ((18 * (a * 0.65 / 1000 / d) + 1.79) * w / 1000 * (d * 60)))"
  using assms Running_values [of d a w sc ms] by simp

theorem Running_get_spent_calories_formula_witness:
  "(0::real) < 1 \<and>
   fst (get_distance (Running \<lparr>action = Num 15000, duration = Num 1, weight = Num 75,
      spent_calories = Num 0, mean_speed_km_h = Num 0\<rparr>)) = Inr (Num 9.75) \<and>
   fst (get_mean_speed (Running \<lparr>action = Num 15000, duration = Num 1, weight = Num 75,
      spent_calories = Num 0, mean_speed_km_h = Num 0\<rparr>)) = Inr (Num 9.75) \<and>
   fst (get_spent_calories (Running \<lparr>action = Num 15000, duration = Num 1, weight = Num 75,
      spent_calories = Num 0, mean_speed_km_h = Num 0\<rparr>)) = Inr (Num 797.805)"
  using Running_get_spent_calories_formula [of 1 15000 75 "Num 0" "Num 0"] by simp

text \<open>
  C2. For a \<^verbatim>\<open>Swimming\<close> object with a positive duration, \<^verbatim>\<open>get_mean_speed\<close> returns
  \<open>length_pool * count_pool / 1000 / duration\<close>, whatever the count of strokes and the
  weight are; and two \<^verbatim>\<open>Swimming\<close> objects with the same pool and the same duration get
  the same result from \<^verbatim>\<open>get_mean_speed\<close>, a value or an exception, whatever their other
  attributes are.
\<close>

theorem Swimming_get_mean_speed_formula:
  fixes d l n :: real and a w sc ms :: pyval
  shows "(0 < d \<longrightarrow>
            fst (get_mean_speed (Swimming \<lparr>action = a, duration = Num d, weight = w,
               spent_calories = sc, mean_speed_km_h = ms\<rparr> (Num l) (Num n))) =
              Inr (Num (l * n / 1000 / d))) \<and>
         (duration c1 = duration c2 \<longrightarrow>
            fst (get_mean_speed (Swimming c1 lp cp)) = fst (get_mean_speed (Swimming c2 lp cp)))"
  by (simp add: Swimming_mean_speed_reads)

theorem Swimming_get_mean_speed_formula_witness:
  "(0::real) < 1 \<and>
   fst (get_mean_speed (Swimming \<lparr>action = Num 720, duration = Num 1, weight = Num 80,
      spent_calories = Num 0, mean_speed_km_h = Num 0\<rparr> (Num 25) (Num 40))) = Inr (Num 1) \<and>
   duration \<lparr>action = Num 720, duration = Num 1, weight = Num 80,
      spent_calories = Num 0, mean_speed_km_h = Num 0\<rparr> =
   duration \<lparr>action = Num 1440, duration = Num 1, weight = Num 60,
      spent_calories = Num 336, mean_speed_km_h = Num 1\<rparr> \<and>
   fst (get_mean_speed (Swimming \<lparr>action = Num 720, duration = Num 1, weight = Num 80,
      spent_calories = Num 0, mean_speed_km_h = Num 0\<rparr> (Num 25) (Num 40))) =
   fst (get_mean_speed (Swimming \<lparr>action = Num 1440, duration = Num 1, weight = Num 60,
      spent_calories = Num 336, mean_speed_km_h = Num 1\<rparr> (Num 25) (Num 40)))"
  using Swimming_get_mean_speed_formula [where d = 1 and a = "Num 720" and w = "Num 80"
      and sc = "Num 0" and ms = "Num 0" and l = 25 and n = 40
      and ?c1.0 = "\<lparr>action = Num 720, duration = Num 1, weight = Num 80,
        spent_calories = Num 0, mean_speed_km_h = Num 0\<rparr>"
      and ?c2.0 = "\<lparr>action = Num 1440, duration = Num 1, weight = Num 60,
        spent_calories = Num 336, mean_speed_km_h = Num 1\<rparr>"
      and lp = "Num 25" and cp = "Num 40"]
  by auto

subsection \<open>The summary of a training\<close>

lemma show_Running:
  fixes a d w :: real and sc ms :: pyval
  assumes "d \<noteq> 0"
  shows "fst (show_training_info (Running \<lparr>action = Num a, duration = Num d, weight = Num w,
            spent_calories = sc, mean_speed_km_h = ms\<rparr>)) =
    Inr (InfoMessage ''Running'' (Num d) (Num (a * 0.65 / 1000)) (Num (a * 0.65 / 1000 / d))
           (Num ((18 * (a * 0.65 / 1000 / d) + 1.79) * w / 1000 * (d * 60))))"
  using assms by (simp add: show_training_info_def method_defs constant_defs)

lemma show_Swimming:
  fixes a d w l n :: real and sc ms :: pyval
  assumes "d \<noteq> 0"
  shows "fst (show_training_info (Swimming \<lparr>action = Num a, duration = Num d, weight = Num w,
            spent_calories = sc, mean_speed_km_h = ms\<rparr> (Num l) (Num n))) =
    Inr (InfoMessage ''Swimming'' (Num d) (Num (a * 1.38 / 1000)) (Num (l * n / 1000 / d))
           (Num ((l * n / 1000 / d + 1.1) * 2 * w * d)))"
  using assms by (simp add: show_training_info_def method_defs constant_defs)

lemma fst_main:
  "fst (main r) =
     (case fst (show_training_info r) of Inl e \<Rightarrow> Inl e | Inr info \<Rightarrow> get_message info)"
  by (simp add: main_def split: prod.splits sum.splits)

lemma run_RUN_example:
  "run_package RUN [Num 15000, Num 1, Num 75] =
     Inr (TXT_TYPE @ ''Running'' @ TXT_DURATION @ ''1.000'' @ TXT_DISTANCE @ ''9.750'' @
          TXT_SPEED @ ''9.750'' @ TXT_CALORIES @ ''797.805'' @ TXT_END)"
  by (simp add: run_package_def read_package_RUN fst_main show_Running format_defs)

text \<open>
  C3, as the claim states it, fails: two \<^verbatim>\<open>Swimming\<close> objects with the same pool, duration
  and weight and with 720 and 1440 strokes have the distances 0.9936 km and 1.9872 km in
  their summaries. \<^verbatim>\<open>Swimming\<close> inherits \<^verbatim>\<open>get_distance\<close> and overrides \<^verbatim>\<open>LEN_STEP\<close> only.
\<close>

theorem Swimming_distance_counterexample:
  "fst (show_training_info (Swimming_init (Num 720) (Num 1) (Num 80) (Num 25) (Num 40))) =
     Inr (InfoMessage ''Swimming'' (Num 1) (Num 0.9936) (Num 1) (Num 336)) \<and>
   fst (show_training_info (Swimming_init (Num 1440) (Num 1) (Num 80) (Num 25) (Num 40))) =
     Inr (InfoMessage ''Swimming'' (Num 1) (Num 1.9872) (Num 1) (Num 336)) \<and>
   map_sum id distance
     (fst (show_training_info (Swimming_init (Num 720) (Num 1) (Num 80) (Num 25) (Num 40)))) \<noteq>
   map_sum id distance
     (fst (show_training_info (Swimming_init (Num 1440) (Num 1) (Num 80) (Num 25) (Num 40))))"
  by (simp add: Swimming_init_def Training_init_def show_Swimming)

text \<open>
  C3, amended. For a \<^verbatim>\<open>Swimming\<close> object with a positive duration the distance of the
  summary is \<open>action * 1.38 / 1000\<close>: the count of strokes and the length of a stroke
  determine it, and the pool does not enter it. The pool determines the mean speed, and
  through it the calories.
\<close>

theorem Swimming_summary_distance:
  fixes a d w l n :: real and sc ms :: pyval
  assumes "0 < d"
  shows "fst (show_training_info (Swimming \<lparr>action = Num a, duration = Num d, weight = Num w,
            spent_calories = sc, mean_speed_km_h = ms\<rparr> (Num l) (Num n))) =
    Inr (InfoMessage ''Swimming'' (Num d) (Num (a * 1.38 / 1000)) (Num (l * n / 1000 / d))
           (Num ((l * n / 1000 / d + 1.1) * 2 * w * d)))"
  using assms show_Swimming [of d a w sc ms l n] by simp

theorem Swimming_summary_distance_witness:
  "(0::real) < 1 \<and>
   fst (show_training_info (Swimming \<lparr>action = Num 720, duration = Num 1, weight = Num 80,
      spent_calories = Num 0, mean_speed_km_h = Num 0\<rparr> (Num 25) (Num 40))) =
     Inr (InfoMessage ''Swimming'' (Num 1) (Num 0.9936) (Num 1) (Num 336))"
  using Swimming_summary_distance [of 1 720 80 "Num 0" "Num 0" 25 40] by simp

text \<open>
  C7, as the claim states it, fails: the line printed for \<^verbatim>\<open>("RUN", [15000, 1, 75])\<close> is
  not the one with 790.658 kcal. The calories of the summary are
  \<open>(18 * 9.75 + 1.79) * 75 / 1000 * 60 = 797.805\<close>.
\<close>

theorem RUN_example_counterexample:
  "fst (show_training_info (Running (Training_init (Num 15000) (Num 1) (Num 75)))) =
     Inr (InfoMessage ''Running'' (Num 1) (Num 9.75) (Num 9.75) (Num 797.805)) \<and>
   run_package RUN [Num 15000, Num 1, Num 75] \<noteq>
     Inr (TXT_TYPE @ ''Running'' @ TXT_DURATION @ ''1.000'' @ TXT_DISTANCE @ ''9.750'' @
          TXT_SPEED @ ''9.750'' @ TXT_CALORIES @ ''790.658'' @ TXT_END)"
  by (simp add: run_RUN_example Training_init_def show_Running)

text \<open>
  C7, amended. \<^verbatim>\<open>("RUN", [15000, 1, 75])\<close> is read into a \<^verbatim>\<open>Running\<close> object whose summary
  has the distance 9.75 km, the mean speed 9.75 km/h and 797.805 kcal, and the line
  printed shows them as 9.750, 9.750 and 797.805.
\<close>

theorem RUN_example_summary:
  "read_package RUN [Num 15000, Num 1, Num 75] =
     Inr (Running (Training_init (Num 15000) (Num 1) (Num 75))) \<and>
   fst (show_training_info (Running (Training_init (Num 15000) (Num 1) (Num 75)))) =
     Inr (InfoMessage ''Running'' (Num 1) (Num 9.75) (Num 9.75) (Num 797.805)) \<and>
   run_package RUN [Num 15000, Num 1, Num 75] =
     Inr (TXT_TYPE @ ''Running'' @ TXT_DURATION @ ''1.000'' @ TXT_DISTANCE @ ''9.750'' @
          TXT_SPEED @ ''9.750'' @ TXT_CALORIES @ ''797.805'' @ TXT_END)"
  by (simp add: run_RUN_example Training_init_def show_Running read_package_RUN)

subsection \<open>What the methods change\<close>

lemma get_distance_frame: "snd (get_distance r) = r"
  by (simp add: get_distance_def)

lemma get_mean_speed_frame:
  "snd (get_mean_speed r) =
     (case fst (get_mean_speed r) of
        Inl e \<Rightarrow> r
      | Inr v \<Rightarrow> update_common (\<lambda>c. c\<lparr>mean_speed_km_h := v\<rparr>) r)"
  by (cases r) (simp_all add: method_defs split: sum.splits)

lemma as_constructed_mean_speed: "as_constructed (snd (get_mean_speed r)) = as_constructed r"
  by (cases r) (simp_all add: method_defs as_constructed_def split: sum.splits)

lemma as_constructed_store:
  "as_constructed (snd (store_spent_calories x s)) = as_constructed s"
  by (cases s) (simp_all add: store_spent_calories_def as_constructed_def split: sum.splits)

lemma as_constructed_calories: "as_constructed (snd (get_spent_calories r)) = as_constructed r"
proof (cases r)
  case (Training c)
  then show ?thesis by (simp add: Training_get_spent_calories_def)
next
  case (Running c)
  then show ?thesis
    using as_constructed_mean_speed [of r]
    by (auto simp: Running_get_spent_calories_def as_constructed_store split: prod.splits)
next
  case (SportsWalking c h)
  then show ?thesis
    using as_constructed_mean_speed [of r]
    by (auto simp: SportsWalking_get_spent_calories_def as_constructed_store
        split: prod.splits sum.splits)
next
  case (Swimming c l n)
  then show ?thesis
    using as_constructed_mean_speed [of r]
    by (auto simp: Swimming_get_spent_calories_def as_constructed_store split: prod.splits)
qed

lemma as_constructed_info: "as_constructed (snd (show_training_info r)) = as_constructed r"
  using as_constructed_mean_speed [of r] as_constructed_calories [of "snd (get_mean_speed r)"]
    get_distance_frame [of r]
  by (auto simp: show_training_info_def Let_def split: prod.splits sum.splits)

text \<open>
  C8, as the claim states it, fails: \<^verbatim>\<open>get_mean_speed\<close> assigns its result to the attribute
  \<^verbatim>\<open>mean_speed_km_h\<close>, which is \<^verbatim>\<open>0.0\<close> in a new object and 9.75 after the call.
\<close>

theorem cached_attribute_counterexample:
  "snd (get_mean_speed (Running (Training_init (Num 15000) (Num 1) (Num 75)))) =
     Running \<lparr>action = Num 15000, duration = Num 1, weight = Num 75,
              spent_calories = Num 0, mean_speed_km_h = Num 9.75\<rparr> \<and>
   snd (get_mean_speed (Running (Training_init (Num 15000) (Num 1) (Num 75)))) \<noteq>
     Running (Training_init (Num 15000) (Num 1) (Num 75))"
  by (simp add: method_defs constant_defs Training_init_def)

text \<open>
  C8, amended. For an object of any class, with any attributes: \<^verbatim>\<open>get_distance\<close> leaves
  the object as it is; \<^verbatim>\<open>get_mean_speed\<close> leaves it as it is when it raises and otherwise
  changes \<^verbatim>\<open>mean_speed_km_h\<close> only, to the value it returns; \<^verbatim>\<open>get_spent_calories\<close> and
  \<^verbatim>\<open>show_training_info\<close> change nothing but the two cached attributes. The class and the
  attributes read from the package stay.
\<close>

theorem methods_keep_package_attributes:
  "snd (get_distance r) = r \<and>
   snd (get_mean_speed r) =
     (case fst (get_mean_speed r) of
        Inl e \<Rightarrow> r
      | Inr v \<Rightarrow> update_common (\<lambda>c. c\<lparr>mean_speed_km_h := v\<rparr>) r) \<and>
   as_constructed (snd (get_mean_speed r)) = as_constructed r \<and>
   as_constructed (snd (get_spent_calories r)) = as_constructed r \<and>
   as_constructed (snd (show_training_info r)) = as_constructed r"
  using get_distance_frame [of r] get_mean_speed_frame [of r] as_constructed_mean_speed [of r]
    as_constructed_calories [of r] as_constructed_info [of r]
  by blast

section \<open>Properties of the message\<close>

lemma is_digit_digit_char: "is_digit (digit_char n)"
proof -
  have "n mod 10 < length ''0123456789''" by simp
  then show ?thesis
    unfolding is_digit_def digit_char_def by (rule nth_mem)
qed

lemma plain_digits: "plain (digits n)"
proof (induction n rule: digits.induct)
  case (1 n)
  show ?case
  proof (cases "n < 10")
    case True
    then show ?thesis by (simp add: digits.simps [of n] plain_def is_digit_digit_char)
  next
    case False
    with 1 show ?thesis by (simp add: digits.simps [of n] plain_def is_digit_digit_char)
  qed
qed

lemma grouped_rev_commas_rev: "plain ds \<Longrightarrow> grouped_rev (commas_rev ds)"
proof (induction ds rule: commas_rev.induct)
  case (1 a b c d ds)
  then show ?case by (simp add: plain_def)
qed (simp_all add: plain_def)

lemma plain_rev: "plain (rev s) = plain s"
  by (simp add: plain_def)

lemma grouped_group_thousands: "plain ds \<Longrightarrow> grouped (group_thousands ds)"
  by (simp add: grouped_def group_thousands_def grouped_rev_commas_rev plain_rev)

lemma format_f3_shape:
  "\<exists>int_part a b c.
     format_f3 grouping x = (if x < 0 then ''-'' else []) @ int_part @ ''.'' @ [a, b, c] \<and>
     is_digit a \<and> is_digit b \<and> is_digit c \<and>
     (if grouping then grouped int_part else plain int_part)"
  by (simp add: format_f3_def Let_def is_digit_digit_char plain_digits grouped_group_thousands)

text \<open>
  The digits that are written denote the rounded number: the integer part without its
  commas and the three decimals are the thousandths that \<^const>\<open>round_half_even\<close> gives,
  which is within half a thousandth of the number.
\<close>

lemma below_ten:
  "(k::nat) < 10 \<Longrightarrow>
   k = 0 \<or> k = 1 \<or> k = 2 \<or> k = 3 \<or> k = 4 \<or> k = 5 \<or> k = 6 \<or> k = 7 \<or> k = 8 \<or> k = 9"
  by arith

lemma digit_value_digit_char: "digit_value (digit_char n) = n mod 10"
proof -
  have "n mod 10 < 10" by simp
  from below_ten [OF this] show ?thesis
    by (auto simp: digit_value_def digit_char_def)
qed

lemma number_of_digits: "number_of (digits n) = n"
proof (induction n rule: digits.induct)
  case (1 n)
  show ?case
  proof (cases "n < 10")
    case True
    then show ?thesis
      by (simp add: digits.simps [of n] number_of_def digit_value_digit_char)
  next
    case False
    with 1 have "number_of (digits (n div 10)) = n div 10" by simp
    with False show ?thesis
      by (simp add: digits.simps [of n] number_of_def digit_value_digit_char)
  qed
qed

lemma filter_commas_rev:
  "filter (\<lambda>c. c \<noteq> CHR '','') (commas_rev ds) = filter (\<lambda>c. c \<noteq> CHR '','') ds"
  by (induction ds rule: commas_rev.induct) simp_all

lemma is_digit_not_comma: "is_digit c \<Longrightarrow> c \<noteq> CHR '',''"
  by (auto simp: is_digit_def)

lemma group_thousands_digits:
  "plain ds \<Longrightarrow> filter (\<lambda>c. c \<noteq> CHR '','') (group_thousands ds) = ds"
proof -
  assume "plain ds"
  then have "filter (\<lambda>c. c \<noteq> CHR '','') ds = ds"
    by (auto simp: plain_def list_all_iff is_digit_not_comma intro: filter_True)
  then show ?thesis
    by (simp add: group_thousands_def filter_commas_rev rev_filter [symmetric])
qed

lemma round_half_even_near: "\<bar>of_int (round_half_even y) - y\<bar> \<le> 1 / 2"
proof -
  define f where "f = \<lfloor>y\<rfloor>"
  define r where "r = y - of_int f"
  have r: "0 \<le> r" "r < 1" unfolding r_def f_def by linarith+
  have y: "y = of_int f + r" by (simp add: r_def)
  consider "r < 1 / 2" | "1 / 2 < r" | "r = 1 / 2" by linarith
  then show ?thesis
  proof cases
    case 1
    then have "round_half_even y = f" by (simp add: round_half_even_def Let_def f_def r_def)
    with r 1 show ?thesis by (simp add: y)
  next
    case 2
    then have "round_half_even y = f + 1" by (simp add: round_half_even_def Let_def f_def r_def)
    with r 2 show ?thesis by (simp add: y)
  next
    case 3
    then have "round_half_even y = f \<or> round_half_even y = f + 1"
      by (simp add: round_half_even_def Let_def f_def r_def)
    with 3 show ?thesis by (auto simp: y)
  qed
qed


lemma three_digits_value:
  assumes "f < 1000"
  shows "number_of [digit_char (f div 100), digit_char (f div 10 mod 10), digit_char (f mod 10)] = f"
proof -
  have a: "f mod 100 = 10 * (f div 10 mod 10) + f mod 10"
    using mod_mult2_eq [of f 10 10] by simp
  have b: "f = 100 * (f div 100) + f mod 100"
    by simp
  have c: "f div 100 mod 10 = f div 100"
    using assms by simp
  have "number_of [digit_char (f div 100), digit_char (f div 10 mod 10), digit_char (f mod 10)] =
      10 * (10 * (f div 100) + f div 10 mod 10) + f mod 10"
    by (simp add: number_of_def digit_value_digit_char c)
  also have "\<dots> = 100 * (f div 100) + f mod 100"
    unfolding a by simp
  also have "\<dots> = f"
    using b by simp
  finally show ?thesis .
qed


lemma round_half_even_nonneg: "0 \<le> y \<Longrightarrow> 0 \<le> round_half_even y"
  by (simp add: round_half_even_def Let_def)

lemma filter_commas_plain: "plain ds \<Longrightarrow> filter (\<lambda>c. c \<noteq> CHR '','') ds = ds"
  by (auto simp: plain_def list_all_iff is_digit_not_comma intro: filter_True)

lemma format_f3_value:
  "\<exists>int_part frac.
     format_f3 grouping x = (if x < 0 then ''-'' else []) @ int_part @ ''.'' @ frac \<and>
     length frac = 3 \<and>
     int (number_of (filter (\<lambda>c. c \<noteq> CHR '','') int_part) * 1000 + number_of frac) =
       round_half_even (\<bar>x\<bar> * 1000)"
proof -
  define n where "n = nat (round_half_even (\<bar>x\<bar> * 1000))"
  have n: "int n = round_half_even (\<bar>x\<bar> * 1000)"
    using round_half_even_nonneg [of "\<bar>x\<bar> * 1000"] by (simp add: n_def)
  define ip where
    "ip = (if grouping then group_thousands (digits (n div 1000)) else digits (n div 1000))"
  define fr where
    "fr = [digit_char (n mod 1000 div 100), digit_char (n mod 1000 div 10 mod 10),
           digit_char (n mod 1000 mod 10)]"
  have ip: "filter (\<lambda>c. c \<noteq> CHR '','') ip = digits (n div 1000)"
    unfolding ip_def
    by (simp add: group_thousands_digits filter_commas_plain plain_digits)
  have fr: "number_of fr = n mod 1000"
    unfolding fr_def by (rule three_digits_value) simp
  have 1: "format_f3 grouping x = (if x < 0 then ''-'' else []) @ ip @ ''.'' @ fr"
    by (simp add: format_f3_def Let_def n_def ip_def fr_def)
  have 2: "length fr = 3"
    by (simp add: fr_def)
  have "number_of (filter (\<lambda>c. c \<noteq> CHR '','') ip) * 1000 + number_of fr = n"
    unfolding ip fr number_of_digits by simp
  then have 3: "int (number_of (filter (\<lambda>c. c \<noteq> CHR '','') ip) * 1000 + number_of fr) =
       round_half_even (\<bar>x\<bar> * 1000)"
    using n by simp
  from 1 2 3 show ?thesis by blast
qed

lemma get_message_Num:
  "get_message (InfoMessage tt (Num du) (Num di) (Num sp) (Num ca)) =
     Inr (TXT_TYPE @ tt @ TXT_DURATION @ format_f3 False du @ TXT_DISTANCE @ format_f3 True di @
          TXT_SPEED @ format_f3 True sp @ TXT_CALORIES @ format_f3 True ca @ TXT_END)"
  by simp

lemma show_training_info_name:
  "fst (show_training_info r) = Inr m \<Longrightarrow> training_type m = class_name r"
  by (auto simp: show_training_info_def Let_def split: prod.splits sum.splits)

lemma call_Running_class: "call_Running vs = Inr r \<Longrightarrow> class_name r = ''Running''"
  by (cases vs rule: call_Running.cases) auto

lemma call_SportsWalking_class:
  "call_SportsWalking vs = Inr r \<Longrightarrow> class_name r = ''SportsWalking''"
  by (cases vs rule: call_SportsWalking.cases)
    (auto simp: SportsWalking_init_def split: sum.splits)

lemma call_Swimming_class: "call_Swimming vs = Inr r \<Longrightarrow> class_name r = ''Swimming''"
  by (cases vs rule: call_Swimming.cases) (auto simp: Swimming_init_def)

lemma read_package_class:
  "read_package RUN vs = Inr r \<Longrightarrow> class_name r = ''Running''"
  "read_package WLK vs = Inr r \<Longrightarrow> class_name r = ''SportsWalking''"
  "read_package SWM vs = Inr r \<Longrightarrow> class_name r = ''Swimming''"
  by (auto simp: read_package_def training_classes_def tags_distinct call_Running_class
      call_SportsWalking_class call_Swimming_class split: sum.splits if_splits)

text \<open>What \<^const>\<open>format_f3\<close> writes renders the number.\<close>

lemma round_half_even_tie:
  assumes "\<bar>of_int (round_half_even y) - y\<bar> = 1 / 2"
  shows "even (round_half_even y)"
proof -
  define f where "f = \<lfloor>y\<rfloor>"
  define r where "r = y - of_int f"
  have r: "0 \<le> r" "r < 1" unfolding r_def f_def by linarith+
  have y: "y = of_int f + r" by (simp add: r_def)
  consider "r < 1 / 2" | "1 / 2 < r" | "r = 1 / 2" by linarith
  then show ?thesis
  proof cases
    case 1
    then have "round_half_even y = f" by (simp add: round_half_even_def Let_def f_def r_def)
    with assms r 1 show ?thesis by (simp add: y)
  next
    case 2
    then have "round_half_even y = f + 1" by (simp add: round_half_even_def Let_def f_def r_def)
    with assms r 2 show ?thesis by (simp add: y)
  next
    case 3
    then show ?thesis by (simp add: round_half_even_def Let_def f_def r_def)
  qed
qed

lemma digit_char_nonzero: "0 < n \<Longrightarrow> n < 10 \<Longrightarrow> digit_char n \<noteq> CHR ''0''"
proof
  assume "0 < n" "n < 10" "digit_char n = CHR ''0''"
  then have "digit_value (digit_char n) = digit_value (CHR ''0'')" by simp
  with \<open>0 < n\<close> \<open>n < 10\<close> show False
    by (simp add: digit_value_digit_char) (simp add: digit_value_def)
qed

lemma hd_digits: "0 < n \<Longrightarrow> hd (digits n) \<noteq> CHR ''0''"
proof (induction n rule: digits.induct)
  case (1 n)
  show ?case
  proof (cases "n < 10")
    case True
    with 1(2) show ?thesis by (simp add: digits.simps [of n] digit_char_nonzero)
  next
    case False
    then have "0 < n div 10" by simp
    with 1(1) False have "hd (digits (n div 10)) \<noteq> CHR ''0''" by simp
    moreover have "digits (n div 10) \<noteq> []"
      using plain_digits [of "n div 10"] by (simp add: plain_def)
    ultimately show ?thesis
      using False by (simp add: digits.simps [of n])
  qed
qed

lemma canonical_digits: "canonical (digits n)"
proof (cases "n = 0")
  case True
  then show ?thesis by (simp add: canonical_def digits.simps digit_char_def)
next
  case False
  then have "hd (digits n) \<noteq> CHR ''0''" by (intro hd_digits) simp
  moreover have "digits n \<noteq> []"
    using plain_digits [of n] by (simp add: plain_def)
  ultimately show ?thesis by (simp add: canonical_def)
qed

lemma format_f3_renders: "renders grouping x (format_f3 grouping x)"
proof -
  define k where "k = round_half_even (\<bar>x\<bar> * 1000)"
  define n where "n = nat k"
  have n: "int n = k"
    using round_half_even_nonneg [of "\<bar>x\<bar> * 1000"] by (simp add: n_def k_def)
  define ip where
    "ip = (if grouping then group_thousands (digits (n div 1000)) else digits (n div 1000))"
  define fr where
    "fr = [digit_char (n mod 1000 div 100), digit_char (n mod 1000 div 10 mod 10),
           digit_char (n mod 1000 mod 10)]"
  have ip: "filter (\<lambda>c. c \<noteq> CHR '','') ip = digits (n div 1000)"
    unfolding ip_def
    by (simp add: group_thousands_digits filter_commas_plain plain_digits)
  have fr: "number_of fr = n mod 1000"
    unfolding fr_def by (rule three_digits_value) simp
  have 1: "\<bar>of_int k - \<bar>x\<bar> * 1000\<bar> \<le> 1 / 2"
    unfolding k_def by (rule round_half_even_near)
  have 2: "\<bar>of_int k - \<bar>x\<bar> * 1000\<bar> = 1 / 2 \<longrightarrow> even k"
    unfolding k_def using round_half_even_tie by blast
  have 3: "format_f3 grouping x = (if x < 0 then ''-'' else []) @ ip @ ''.'' @ fr"
    by (simp add: format_f3_def Let_def n_def k_def ip_def fr_def)
  have 4: "length fr = 3" "list_all is_digit fr"
    by (simp_all add: fr_def is_digit_digit_char)
  have 5: "if grouping then grouped ip else plain ip"
    by (simp add: ip_def plain_digits grouped_group_thousands)
  have 6: "canonical (filter (\<lambda>c. c \<noteq> CHR '','') ip)"
    unfolding ip by (rule canonical_digits)
  have "number_of (filter (\<lambda>c. c \<noteq> CHR '','') ip) * 1000 + number_of fr = n"
    unfolding ip fr number_of_digits by simp
  then have 7: "int (number_of (filter (\<lambda>c. c \<noteq> CHR '','') ip)) * 1000 + int (number_of fr) = k"
    using n by (metis of_nat_add of_nat_mult of_nat_numeral)
  from 1 2 3 4 5 6 7 show ?thesis
    unfolding renders_def by blast
qed

section \<open>Properties of the arithmetic in double precision\<close>

subsection \<open>Rounding to a double\<close>

lemma quantum_pos: "0 < quantum x"
  by (simp add: quantum_def)




subsection \<open>Where an exception comes from\<close>


lemma round_double_zero: "round_double 0 = Fin 0"
  by (simp add: round_double_def round_half_even_def)











lemma get_distance64_state: "snd (get_distance64 r) = r"
  by (simp add: get_distance64_def)





lemma as_constructed64_fields:
  assumes "as_constructed64 s = as_constructed64 r"
  shows "duration64 (common64 s) = duration64 (common64 r)"
    and "weight64 (common64 s) = weight64 (common64 r)"
    and "action64 (common64 s) = action64 (common64 r)"
proof -
  have "duration64 (common64 (as_constructed64 s)) = duration64 (common64 s)"
       "weight64 (common64 (as_constructed64 s)) = weight64 (common64 s)"
       "action64 (common64 (as_constructed64 s)) = action64 (common64 s)" for s
    by (cases s; simp add: as_constructed64_def)+
  with assms show "duration64 (common64 s) = duration64 (common64 r)"
    and "weight64 (common64 s) = weight64 (common64 r)"
    and "action64 (common64 s) = action64 (common64 r)"
    by metis+
qed








subsection \<open>Zero and the normal range\<close>




lemma quantum_normal:
  assumes "2 powr of_int k \<le> \<bar>x\<bar>" "\<bar>x\<bar> < 2 powr of_int (k + 1)" "- 1022 \<le> k"
  shows "quantum x = 2 powr of_int (k - 52)"
proof -
  have "2 powr (- 1022) \<le> (2::real) powr of_int k"
    using assms(3) by (intro powr_mono) simp_all
  with assms(1) have 1: "\<not> \<bar>x\<bar> < 2 powr (- 1022)" by linarith
  have pos: "0 < \<bar>x\<bar>"
    using assms(1) by (smt (verit) powr_gt_zero)
  have "\<lfloor>log 2 \<bar>x\<bar>\<rfloor> = k"
    using assms(1,2) pos by (subst floor_log_eq_powr_iff) simp_all
  with 1 show ?thesis by (simp add: quantum_def)
qed

lemma round_double_normal:
  assumes "2 powr of_int k \<le> \<bar>x\<bar>" "\<bar>x\<bar> < 2 powr of_int (k + 1)" "- 1022 \<le> k" "k \<le> 1022"
  shows "round_double x =
    Fin (of_int (round_half_even (x / 2 powr of_int (k - 52))) * 2 powr of_int (k - 52))"
proof -
  define q :: real where "q = 2 powr of_int (k - 52)"
  have q: "quantum x = q"
    unfolding q_def using assms(1-3) by (rule quantum_normal)
  have qpos: "0 < q" by (simp add: q_def)
  have top: "2 powr of_int (k + 1) = 2 ^ 53 * q"
  proof -
    have "real_of_int (k + 1) = 53 + real_of_int (k - 52)" by simp
    then have "(2::real) powr of_int (k + 1) = 2 powr (53 + of_int (k - 52))" by presburger
    also have "\<dots> = 2 powr 53 * 2 powr of_int (k - 52)" by (rule powr_add)
    finally show ?thesis by (simp add: q_def)
  qed
  from assms(2) have "\<bar>x\<bar> < 2 ^ 53 * q"
    unfolding top .
  then have "\<bar>x\<bar> / q < 2 ^ 53"
    using qpos by (simp add: divide_less_eq)
  then have "\<bar>x / q\<bar> < 2 ^ 53"
    using qpos by simp
  with round_half_even_near [of "x / q"]
  have "\<bar>real_of_int (round_half_even (x / q))\<bar> < 2 ^ 53 + 1"
    by linarith
  then have "\<bar>round_half_even (x / q)\<bar> < 2 ^ 53 + 1"
    by (metis (mono_tags, opaque_lifting) of_int_abs of_int_less_iff of_int_numeral of_int_power of_int_add of_int_1)
  then have "\<bar>round_half_even (x / q)\<bar> \<le> 2 ^ 53"
    by simp
  then have "\<bar>real_of_int (round_half_even (x / q))\<bar> \<le> 2 ^ 53"
    by (metis (mono_tags, opaque_lifting) of_int_abs of_int_le_iff of_int_numeral of_int_power)
  then have "\<bar>real_of_int (round_half_even (x / q)) * q\<bar> \<le> 2 ^ 53 * q"
    using qpos by (simp add: abs_mult)
  also have "\<dots> = 2 powr of_int (k + 1)"
    by (rule top [symmetric])
  also have "\<dots> \<le> 2 powr 1023"
    using assms(4) by (intro powr_mono) simp_all
  also have "\<dots> < (2::real) ^ 1024"
    by simp
  finally have "\<not> 2 ^ 1024 \<le> \<bar>real_of_int (round_half_even (x / q)) * q\<bar>"
    by simp
  then show ?thesis
    by (simp add: round_double_def q Let_def) (simp add: q_def)
qed

text \<open>
  The doubles of the constants and of the intermediate results of the three runs below,
  each the correctly rounded value of the exact number on the left.
\<close>

lemma double_0_65: "round_double (13 / 20) = Fin (5854679515581645 / 9007199254740992)"
  using round_double_normal [of "-1" "13 / 20"]
  by (simp add: powr_neg_numeral round_half_even_def)

lemma double_0_278: "round_double (139 / 500) = Fin (626000348204499 / 2251799813685248)"
  using round_double_normal [of "-2" "139 / 500"]
  by (simp add: powr_neg_numeral round_half_even_def)


lemma double_1000: "round_double (1000) = Fin (1000)"
  using round_double_normal [of "9" "1000"]
  by (simp add: powr_neg_numeral round_half_even_def)


lemma double_75: "round_double (75) = Fin (75)"
  using round_double_normal [of "6" "75"]
  by (simp add: powr_neg_numeral round_half_even_def)

lemma double_1: "round_double (1) = Fin (1)"
  using round_double_normal [of "0" "1"]
  by (simp add: powr_neg_numeral round_half_even_def)








lemma double_10_200: "round_double (100000000000000000000000000000000000000000000000000000000000000000000000000000000000000000000000000000000000000000000000000000000000000000000000000000000000000000000000000000000000000000000000000000000) = Fin (99999999999999996973312221251036165947450327545502362648241750950346848435554075534196338404706251868027512415973882408182135734368278484639385041047239877871023591066789981811181813306167128854888448)"
  using round_double_normal [of "664" "100000000000000000000000000000000000000000000000000000000000000000000000000000000000000000000000000000000000000000000000000000000000000000000000000000000000000000000000000000000000000000000000000000000"]
  by (simp add: powr_neg_numeral round_half_even_def)

lemma far_step_1: "round_double (65000000000000000253098993063486521507136842712792652448468661205900792511509804368143842746588967524476624178618656754101928475082787778244207366331018313194978815945908470202229325537983224222842880) = Fin (65000000000000003131577674854137655285889495808275358085451068297231914197773875821101794627240594010177904816584165986655951295305790762342761918146695418947557130352652066838048378668783536460267520)"
  using round_double_normal [of "663" "65000000000000000253098993063486521507136842712792652448468661205900792511509804368143842746588967524476624178618656754101928475082787778244207366331018313194978815945908470202229325537983224222842880"]
  by (simp add: powr_neg_numeral round_half_even_def)

lemma far_step_2: "round_double (1625000000000000078289441871353441382147237395206883952136276707430797854944346895527544865681014850254447620414604149666398782382644769058569047953667385473688928258816301670951209466719588411506688 / 25) = Fin (65000000000000005123345147917014275371845270380032710571425259773601626195689394072615144105436504282037288311193987244990936868730169569892434434344347566733257050727354636627415644301508107829248)"
  using round_double_normal [of "653" "1625000000000000078289441871353441382147237395206883952136276707430797854944346895527544865681014850254447620414604149666398782382644769058569047953667385473688928258816301670951209466719588411506688 / 25"]
  by (simp add: powr_neg_numeral round_half_even_def)

lemma far_step_3: "round_double (65000000000000005123345147917014275371845270380032710571425259773601626195689394072615144105436504282037288311193987244990936868730169569892434434344347566733257050727354636627415644301508107829248) = Fin (65000000000000005123345147917014275371845270380032710571425259773601626195689394072615144105436504282037288311193987244990936868730169569892434434344347566733257050727354636627415644301508107829248)"
  using round_double_normal [of "653" "65000000000000005123345147917014275371845270380032710571425259773601626195689394072615144105436504282037288311193987244990936868730169569892434434344347566733257050727354636627415644301508107829248"]
  by (simp add: powr_neg_numeral round_half_even_def)

lemma far_step_4: "round_double (18070000000000003040774674975158018822629411452550110002831207702116828444220624547593036125960497141063717450462583139813131675970100639170346046453808987129788508053956692329608662243715395354624) = Fin (18070000000000003731420607418762053486271757377934693501776327343856168479987126860189973206888277588643485365101638078345505405390225925841800770676675694736947867869568398988438631807058549145600)"
  using round_double_normal [of "651" "18070000000000003040774674975158018822629411452550110002831207702116828444220624547593036125960497141063717450462583139813131675970100639170346046453808987129788508053956692329608662243715395354624"]
  by (simp add: powr_neg_numeral round_half_even_def)

lemma far_step_5: "(2::real) ^ 1024 \<le> (18070000000000003731420607418762053486271757377934693501776327343856168479987126860189973206888277588643485365101638078345505405390225925841800770676675694736947867869568398988438631807058549145600) * (18070000000000003731420607418762053486271757377934693501776327343856168479987126860189973206888277588643485365101638078345505405390225925841800770676675694736947867869568398988438631807058549145600)"
  by simp












lemma round_half_even_mono_int:
  assumes "real_of_int N \<le> y"
  shows "N \<le> round_half_even y"
proof -
  from round_half_even_near [of y] have "y - 1 / 2 \<le> real_of_int (round_half_even y)"
    by linarith
  with assms have "real_of_int N - 1 / 2 \<le> real_of_int (round_half_even y)"
    by linarith
  then have "real_of_int N < real_of_int (round_half_even y) + 1"
    by linarith
  then have "N < round_half_even y + 1"
    by (metis of_int_1 of_int_add of_int_less_iff)
  then show ?thesis by simp
qed

lemma round_double_overflow:
  assumes "2 ^ 1024 \<le> x"
  shows "round_double x = PInf"
proof -
  have pos: "0 < x"
    using assms by (smt (verit) zero_less_power)
  define e where "e = \<lfloor>log 2 \<bar>x\<bar>\<rfloor>"
  have "(2::real) powr 1024 \<le> \<bar>x\<bar>"
    using assms pos by simp
  then have "1024 \<le> log 2 \<bar>x\<bar>"
    using pos by (simp add: le_log_iff)
  then have e: "1024 \<le> e"
    unfolding e_def by (simp add: le_floor_iff)
  have "(2::real) powr (- 1022) \<le> 2 powr 1024"
    by (intro powr_mono) simp_all
  with \<open>2 powr 1024 \<le> \<bar>x\<bar>\<close> have "\<not> \<bar>x\<bar> < 2 powr (- 1022)"
    by linarith
  then have q: "quantum x = 2 powr of_int (e - 52)"
    by (simp add: quantum_def e_def)
  have le: "2 powr of_int e \<le> \<bar>x\<bar>"
  proof -
    have "2 powr of_int e \<le> 2 powr (log 2 \<bar>x\<bar>)"
      unfolding e_def by (intro powr_mono) simp_all
    then show ?thesis using pos by simp
  qed
  have split: "2 powr of_int e = 2 ^ 52 * quantum x"
  proof -
    have "real_of_int e = 52 + real_of_int (e - 52)" by simp
    then have "(2::real) powr of_int e = 2 powr (52 + of_int (e - 52))" by presburger
    also have "\<dots> = 2 powr 52 * 2 powr of_int (e - 52)" by (rule powr_add)
    finally show ?thesis by (simp add: q)
  qed
  have "real_of_int (2 ^ 52) \<le> x / quantum x"
    using le pos quantum_pos [of x] unfolding split by (simp add: le_divide_eq)
  then have "2 ^ 52 \<le> round_half_even (x / quantum x)"
    by (rule round_half_even_mono_int)
  then have "real_of_int (2 ^ 52) \<le> real_of_int (round_half_even (x / quantum x))"
    by (simp only: of_int_le_iff)
  then have "2 ^ 52 * quantum x \<le> real_of_int (round_half_even (x / quantum x)) * quantum x"
    using quantum_pos [of x] by simp
  moreover have "(2::real) ^ 1024 \<le> 2 powr of_int e"
  proof -
    have "(2::real) powr 1024 \<le> 2 powr of_int e"
      using e by (intro powr_mono) simp_all
    then show ?thesis by simp
  qed
  ultimately have "2 ^ 1024 \<le> real_of_int (round_half_even (x / quantum x)) * quantum x"
    unfolding split by linarith
  then have "2 ^ 1024 \<le> \<bar>real_of_int (round_half_even (x / quantum x)) * quantum x\<bar>"
    by linarith
  then show ?thesis
    using pos by (simp add: round_double_def Let_def)
qed

subsection \<open>Three walks\<close>

text \<open>
  How \<^verbatim>\<open>SportsWalking.get_spent_calories\<close> ends, given the values of its steps.
\<close>

lemma walking_raises:
  assumes "get_mean_speed64 (SportsWalking64 c h) = (Inr ms, s)"
    and "n_mul (Inr ms) M_TO_SEC_CONVERTER64 = Inr m"
    and "n_mul CALORIES_WEIGHT_FACTOR_1_64 (Inr (weight64 (common64 s))) = Inr v"
    and "n_truediv (n_square (Inr m)) (Inr (height64 s)) = Inl e"
  shows "fst (get_spent_calories64 (SportsWalking64 c h)) = Inl e"
  using assms
  by (simp add: SportsWalking_get_spent_calories64_def store_spent_calories64_def)





text \<open>
  A walk of \<open>10\<close> to the power \<open>200\<close> steps: the square of the speed is beyond the range
  of a double, and \<^verbatim>\<open>** 2\<close> raises \<^verbatim>\<open>OverflowError\<close>.
\<close>

lemma far_walk_overflow:
  "fst (get_spent_calories64
     (SportsWalking64
        \<lparr>action64 = PyInt (10 ^ 200), duration64 = PyInt 1, weight64 = PyInt 75,
         spent_calories64 = PyFloat (Fin 0), mean_speed_km_h64 = PyFloat (Fin 0)\<rparr>
        (PyFloat (Fin (8106479329266893 / 4503599627370496))))) = Inl OverflowError"
proof -
  let ?c = "\<lparr>action64 = PyInt (10 ^ 200), duration64 = PyInt 1, weight64 = PyInt 75,
         spent_calories64 = PyFloat (Fin 0), mean_speed_km_h64 = PyFloat (Fin 0)\<rparr>"
  let ?h = "PyFloat (Fin (8106479329266893 / 4503599627370496))"
  let ?ms = "PyFloat (Fin (65000000000000005123345147917014275371845270380032710571425259773601626195689394072615144105436504282037288311193987244990936868730169569892434434344347566733257050727354636627415644301508107829248))"
  let ?m = "PyFloat (Fin (18070000000000003731420607418762053486271757377934693501776327343856168479987126860189973206888277588643485365101638078345505405390225925841800770676675694736947867869568398988438631807058549145600))"
  let ?s = "SportsWalking64 (?c\<lparr>mean_speed_km_h64 := ?ms\<rparr>) ?h"
  have 1: "get_mean_speed64 (SportsWalking64 ?c ?h) = (Inr ?ms, ?s)"
    by (simp add: Training_get_mean_speed64_def get_distance64_def
        constant64_defs float_op_def double_0_65 double_10_200 double_1000 double_1
        far_step_1 far_step_2 far_step_3)
  have 2: "n_mul (Inr ?ms) M_TO_SEC_CONVERTER64 = Inr ?m"
    by (simp add: constant64_defs float_op_def double_0_278 far_step_4)
  have 3: "n_mul CALORIES_WEIGHT_FACTOR_1_64 (Inr (weight64 (common64 ?s))) =
      Inr (PyFloat (f_mul (round_double 0.035) (Fin 75)))"
    by (simp add: constant64_defs float_op_def double_75)
  have "round_double ((18070000000000003731420607418762053486271757377934693501776327343856168479987126860189973206888277588643485365101638078345505405390225925841800770676675694736947867869568398988438631807058549145600) * (18070000000000003731420607418762053486271757377934693501776327343856168479987126860189973206888277588643485365101638078345505405390225925841800770676675694736947867869568398988438631807058549145600)) = PInf"
    using far_step_5 by (rule round_double_overflow)
  then have "n_square (Inr ?m) = Inl OverflowError"
    by (simp del: mult_numeral_left_semiring_numeral)
  then have 4: "n_truediv (n_square (Inr ?m)) (Inr (height64 ?s)) = Inl OverflowError"
    by (simp only: n_truediv.simps)
  from 1 2 3 4 show ?thesis by (rule walking_raises)
qed

subsection \<open>The exceptions of the formulas\<close>






section \<open>Properties of the message in double precision\<close>

lemma py_format64_finite:
  "to_double v = Inr (Fin x) \<Longrightarrow> py_format64 grouping v = Inr (format_f3 grouping x)"
  by (simp add: py_format64_def)

lemma get_message64_finite:
  assumes "to_double n_du = Inr (Fin du)" "to_double n_di = Inr (Fin di)"
    "to_double n_sp = Inr (Fin sp)" "to_double n_ca = Inr (Fin ca)"
  shows "get_message64 (InfoMessage64 tt n_du n_di n_sp n_ca) =
     Inr (TXT_TYPE @ tt @ TXT_DURATION @ format_f3 False du @ TXT_DISTANCE @ format_f3 True di @
          TXT_SPEED @ format_f3 True sp @ TXT_CALORIES @ format_f3 True ca @ TXT_END)"
  using assms by (simp add: py_format64_finite)

text \<open>On finite floats the message is the one of the first part.\<close>

lemma get_message64_Fin:
  "get_message64 (InfoMessage64 tt (PyFloat (Fin du)) (PyFloat (Fin di)) (PyFloat (Fin sp))
      (PyFloat (Fin ca))) =
   get_message (InfoMessage tt (Num du) (Num di) (Num sp) (Num ca))"
  by (simp add: py_format64_def)

text \<open>
  An int beyond \<open>2\<close> to the power \<open>53\<close> is printed as the double nearest to it, an int
  beyond the range of a double raises \<^verbatim>\<open>OverflowError\<close>, and the numbers that are not
  finite are printed by name.
\<close>

lemma double_2_53_1: "round_double 9007199254740993 = Fin 9007199254740992"
  using round_double_normal [of 53 9007199254740993]
  by (simp add: round_half_even_def)

lemma large_int_format:
  "py_format64 True (PyInt 9007199254740993) = Inr ''9,007,199,254,740,992.000''"
  by (simp add: py_format64_def double_2_53_1) (simp add: format_defs)

lemma huge_int_format: "py_format64 grouping (PyInt (2 ^ 1024)) = Inl OverflowError"
proof -
  have "round_double (2 ^ 1024) = PInf"
    by (rule round_double_overflow) simp
  then show ?thesis
    by (simp add: py_format64_def)
qed

lemma non_finite_summary:
  "get_message64
     (InfoMessage64 ''Running'' (PyFloat (Fin 1)) (PyFloat PInf) (PyFloat NaN) (PyFloat NInf)) =
   Inr (TXT_TYPE @ ''Running'' @ TXT_DURATION @ ''1.000'' @ TXT_DISTANCE @ ''inf'' @
        TXT_SPEED @ ''nan'' @ TXT_CALORIES @ ''-inf'' @ TXT_END)"
  by (simp add: py_format64_def format_defs)

text \<open>
  C6, as the claim states it, fails: the duration is formatted with \<^verbatim>\<open>.3f\<close>, without the
  comma option of the other three numbers, so that a duration of 1000 hours is rendered
  \<^verbatim>\<open>1000.000\<close> and not \<^verbatim>\<open>1,000.000\<close>.
\<close>

theorem duration_grouping_counterexample:
  "get_message (InfoMessage ''Running'' (Num 1000) (Num 1) (Num 1) (Num 1)) =
     Inr (TXT_TYPE @ ''Running'' @ TXT_DURATION @ ''1000.000'' @ TXT_DISTANCE @ ''1.000'' @
          TXT_SPEED @ ''1.000'' @ TXT_CALORIES @ ''1.000'' @ TXT_END) \<and>
   get_message_as_claimed (InfoMessage ''Running'' (Num 1000) (Num 1) (Num 1) (Num 1)) =
     Inr (TXT_TYPE @ ''Running'' @ TXT_DURATION @ ''1,000.000'' @ TXT_DISTANCE @ ''1.000'' @
          TXT_SPEED @ ''1.000'' @ TXT_CALORIES @ ''1.000'' @ TXT_END) \<and>
   get_message (InfoMessage ''Running'' (Num 1000) (Num 1) (Num 1) (Num 1)) \<noteq>
     get_message_as_claimed (InfoMessage ''Running'' (Num 1000) (Num 1) (Num 1) (Num 1))"
  by (simp add: get_message_as_claimed_def format_defs)

text \<open>
  C6, amended. The message of a summary whose four numbers are finite is the fixed text
  with the name and the four numbers in their places. Each number is rendered from its
  value as a double, rounded to three decimals with a tie going to the even neighbour:
  a minus sign if the value is negative, the integer part without a leading zero, a point
  and exactly three digits. The integer part of the duration is a plain run of digits,
  without thousands separators; those of the distance, the speed and the calories are
  grouped in threes by commas. A number that is not finite is outside the statement: it
  is printed as \<^verbatim>\<open>inf\<close>, \<^verbatim>\<open>-inf\<close> or \<^verbatim>\<open>nan\<close>, and an int beyond the range of a double
  raises \<^verbatim>\<open>OverflowError\<close>; so is the negative zero, which is printed with a minus sign
  and which is no value of \<^typ>\<open>fval\<close>. The name in the summary of a package that was read
  is the name of the class, \<^verbatim>\<open>Running\<close>, \<^verbatim>\<open>SportsWalking\<close> or \<^verbatim>\<open>Swimming\<close>, not the tag.
\<close>

theorem get_message_template:
  "(to_double n_du = Inr (Fin du) \<longrightarrow> to_double n_di = Inr (Fin di) \<longrightarrow>
    to_double n_sp = Inr (Fin sp) \<longrightarrow> to_double n_ca = Inr (Fin ca) \<longrightarrow>
      (\<exists>s_du s_di s_sp s_ca.
         get_message64 (InfoMessage64 tt n_du n_di n_sp n_ca) =
           Inr (TXT_TYPE @ tt @ TXT_DURATION @ s_du @ TXT_DISTANCE @ s_di @
                TXT_SPEED @ s_sp @ TXT_CALORIES @ s_ca @ TXT_END) \<and>
         renders False du s_du \<and> renders True di s_di \<and>
         renders True sp s_sp \<and> renders True ca s_ca)) \<and>
   (read_package RUN vs = Inr r \<longrightarrow> fst (show_training_info r) = Inr m \<longrightarrow>
      training_type m = ''Running'') \<and>
   (read_package WLK vs = Inr r \<longrightarrow> fst (show_training_info r) = Inr m \<longrightarrow>
      training_type m = ''SportsWalking'') \<and>
   (read_package SWM vs = Inr r \<longrightarrow> fst (show_training_info r) = Inr m \<longrightarrow>
      training_type m = ''Swimming'')"
proof (intro conjI impI)
  show "\<exists>s_du s_di s_sp s_ca.
         get_message64 (InfoMessage64 tt n_du n_di n_sp n_ca) =
           Inr (TXT_TYPE @ tt @ TXT_DURATION @ s_du @ TXT_DISTANCE @ s_di @
                TXT_SPEED @ s_sp @ TXT_CALORIES @ s_ca @ TXT_END) \<and>
         renders False du s_du \<and> renders True di s_di \<and>
         renders True sp s_sp \<and> renders True ca s_ca"
    if "to_double n_du = Inr (Fin du)" "to_double n_di = Inr (Fin di)"
      "to_double n_sp = Inr (Fin sp)" "to_double n_ca = Inr (Fin ca)"
    using get_message64_finite [OF that, of tt] format_f3_renders [of False du]
      format_f3_renders [of True di] format_f3_renders [of True sp]
      format_f3_renders [of True ca]
    by blast
  show "training_type m = ''Running''"
    if "read_package RUN vs = Inr r" "fst (show_training_info r) = Inr m"
    using that by (simp add: show_training_info_name read_package_class)
  show "training_type m = ''SportsWalking''"
    if "read_package WLK vs = Inr r" "fst (show_training_info r) = Inr m"
    using that by (simp add: show_training_info_name read_package_class)
  show "training_type m = ''Swimming''"
    if "read_package SWM vs = Inr r" "fst (show_training_info r) = Inr m"
    using that by (simp add: show_training_info_name read_package_class)
qed

theorem get_message_template_witness:
  "to_double (PyInt 1000) = Inr (Fin 1000) \<and>
   to_double (PyFloat (Fin 9.75)) = Inr (Fin 9.75) \<and>
   to_double (PyFloat (Fin 1234567.0625)) = Inr (Fin 1234567.0625) \<and>
   to_double (PyFloat (Fin (- 0.5))) = Inr (Fin (- 0.5)) \<and>
   (\<exists>s_du s_di s_sp s_ca.
      get_message64 (InfoMessage64 ''Running'' (PyInt 1000) (PyFloat (Fin 9.75))
          (PyFloat (Fin 1234567.0625)) (PyFloat (Fin (- 0.5)))) =
        Inr (TXT_TYPE @ ''Running'' @ TXT_DURATION @ s_du @ TXT_DISTANCE @ s_di @
             TXT_SPEED @ s_sp @ TXT_CALORIES @ s_ca @ TXT_END) \<and>
      renders False 1000 s_du \<and> renders True 9.75 s_di \<and>
      renders True 1234567.0625 s_sp \<and> renders True (- 0.5) s_ca) \<and>
   get_message64 (InfoMessage64 ''Running'' (PyInt 1000) (PyFloat (Fin 9.75))
       (PyFloat (Fin 1234567.0625)) (PyFloat (Fin (- 0.5)))) =
     Inr (TXT_TYPE @ ''Running'' @ TXT_DURATION @ ''1000.000'' @ TXT_DISTANCE @ ''9.750'' @
          TXT_SPEED @ ''1,234,567.062'' @ TXT_CALORIES @ ''-0.500'' @ TXT_END) \<and>
   read_package RUN [Num 15000, Num 1, Num 75] =
     Inr (Running (Training_init (Num 15000) (Num 1) (Num 75))) \<and>
   fst (show_training_info (Running (Training_init (Num 15000) (Num 1) (Num 75)))) =
     Inr (InfoMessage ''Running'' (Num 1) (Num 9.75) (Num 9.75) (Num 797.805)) \<and>
   training_type (InfoMessage ''Running'' (Num 1) (Num 9.75) (Num 9.75) (Num 797.805)) =
     ''Running''"
proof -
  have 0: "to_double (PyInt 1000) = Inr (Fin 1000)"
    by (simp add: double_1000)
  have 1: "read_package RUN [Num 15000, Num 1, Num 75] =
     Inr (Running (Training_init (Num 15000) (Num 1) (Num 75)))"
    by (simp add: read_package_RUN Training_init_def)
  have 2: "fst (show_training_info (Running (Training_init (Num 15000) (Num 1) (Num 75)))) =
     Inr (InfoMessage ''Running'' (Num 1) (Num 9.75) (Num 9.75) (Num 797.805))"
    by (simp add: Training_init_def show_Running)
  have 3: "get_message64 (InfoMessage64 ''Running'' (PyInt 1000) (PyFloat (Fin 9.75))
       (PyFloat (Fin 1234567.0625)) (PyFloat (Fin (- 0.5)))) =
     Inr (TXT_TYPE @ ''Running'' @ TXT_DURATION @ ''1000.000'' @ TXT_DISTANCE @ ''9.750'' @
          TXT_SPEED @ ''1,234,567.062'' @ TXT_CALORIES @ ''-0.500'' @ TXT_END)"
    by (simp add: py_format64_def double_1000) (simp add: format_defs)
  note t = get_message_template [where n_du = "PyInt 1000" and du = 1000
      and n_di = "PyFloat (Fin 9.75)" and di = "9.75"
      and n_sp = "PyFloat (Fin 1234567.0625)" and sp = "1234567.0625"
      and n_ca = "PyFloat (Fin (- 0.5))" and ca = "- 0.5"
      and tt = "''Running''" and vs = "[Num 15000, Num 1, Num 75]"
      and r = "Running (Training_init (Num 15000) (Num 1) (Num 75))"
      and m = "InfoMessage ''Running'' (Num 1) (Num 9.75) (Num 9.75) (Num 797.805)"]
  from t 0 have
    "\<exists>s_du s_di s_sp s_ca.
      get_message64 (InfoMessage64 ''Running'' (PyInt 1000) (PyFloat (Fin 9.75))
          (PyFloat (Fin 1234567.0625)) (PyFloat (Fin (- 0.5)))) =
        Inr (TXT_TYPE @ ''Running'' @ TXT_DURATION @ s_du @ TXT_DISTANCE @ s_di @
             TXT_SPEED @ s_sp @ TXT_CALORIES @ s_ca @ TXT_END) \<and>
      renders False 1000 s_du \<and> renders True 9.75 s_di \<and>
      renders True 1234567.0625 s_sp \<and> renders True (- 0.5) s_ca"
    by simp
  with 0 1 2 3 show ?thesis
    by simp
qed

end
